theory Spec2Isabelle
  imports Complex_Main
begin

section \<open>JavaScript values read by the services\<close>

text \<open>
  The console is TypeScript. An optional property (\<^verbatim>\<open>name?: T\<close>) is an \<open>option\<close>, with
  \<open>None\<close> for \<^verbatim>\<open>undefined\<close>. A \<^verbatim>\<open>number\<close> that is only stored, compared and tested for
  truthiness is a \<open>real\<close>; identifiers and record counts are \<open>nat\<close>. A string that is
  only compared, concatenated or searched for an ASCII text is a byte string: the one
  non-ASCII character of the sources, the arrow U+2192 of a dependency message, is written
  as its three UTF-8 bytes. A file name, in which positions are counted, is a sequence of
  UTF-16 code units (\<open>js_string\<close> below).

  \<^verbatim>\<open>a || b\<close> yields \<^verbatim>\<open>b\<close> when \<^verbatim>\<open>a\<close> is falsy: \<^verbatim>\<open>undefined\<close>, the empty string, the
  number zero, \<^verbatim>\<open>false\<close>.
\<close>

definition str_or :: "string option \<Rightarrow> string \<Rightarrow> string" where
  "str_or v d = (case v of None \<Rightarrow> d | Some s \<Rightarrow> if s = [] then d else s)"

definition num_or :: "real option \<Rightarrow> real \<Rightarrow> real" where
  "num_or v d = (case v of None \<Rightarrow> d | Some x \<Rightarrow> if x = 0 then d else x)"

definition truthy :: "bool option \<Rightarrow> bool" where
  "truthy v = (case v of None \<Rightarrow> False | Some b \<Rightarrow> b)"

text \<open>\<^verbatim>\<open>Array.prototype.join(sep)\<close> on an array of strings.\<close>

fun join :: "string list \<Rightarrow> string \<Rightarrow> string" where
  "join [] sep = []"
| "join [x] sep = x"
| "join (x # y # ys) sep = x @ sep @ join (y # ys) sep"

definition arrow :: string where
  "arrow = [CHR 0xE2, CHR 0x86, CHR 0x92]"

section \<open>Upload status snapshot and the dependency checker\<close>

text \<open>
  \<^verbatim>\<open>UploadStatus\<close> (upload.service.ts) maps a file-type key to a status entry. The entry's
  fields carry the prefix \<open>st_\<close>.
\<close>

record error_summary =
  totalErrors :: nat
  validationErrors :: nat
  skippedRows :: nat

record file_status =
  st_exists :: bool
  st_count :: nat
  st_processing :: "bool option"
  st_failed :: "bool option"
  st_progressPercentage :: "real option"
  st_progressMessage :: "string option"
  st_errorSummary :: "error_summary option"
  st_taskId :: "nat option"

type_synonym UploadStatus = "string \<rightharpoonup> file_status"

record dependency_check =
  enabled :: bool
  message :: string

text \<open>\<^verbatim>\<open>statusData[key]?.exists\<close>: false when the snapshot has no entry for the key.\<close>

definition exists_in :: "UploadStatus \<Rightarrow> string \<Rightarrow> bool" where
  "exists_in statusData k = (case statusData k of None \<Rightarrow> False | Some s \<Rightarrow> st_exists s)"

text \<open>\<^verbatim>\<open>UploadService.checkUploadDependencies\<close>, a \<^verbatim>\<open>switch\<close> on the file type.\<close>

definition checkUploadDependencies :: "string \<Rightarrow> UploadStatus \<Rightarrow> dependency_check" where
  "checkUploadDependencies fileType statusData =
     (if fileType = ''styles'' \<or> fileType = ''stores'' then
        \<lparr>enabled = True, message = ''''\<rparr>
      else if fileType = ''skus'' then
        (if \<not> exists_in statusData ''styles'' then
           \<lparr>enabled = False,
            message = ''Upload styles first (styles '' @ arrow @ '' skus '' @ arrow @ '' sales)''\<rparr>
         else \<lparr>enabled = True, message = ''''\<rparr>)
      else if fileType = ''sales'' then
        (let missingDeps =
               (if \<not> exists_in statusData ''styles'' then [''styles''] else [])
             @ (if \<not> exists_in statusData ''skus'' then [''skus''] else [])
             @ (if \<not> exists_in statusData ''stores'' then [''stores''] else [])
         in if length missingDeps > 0 then
              \<lparr>enabled = False, message = ''Upload '' @ join missingDeps '', '' @ '' first''\<rparr>
            else \<lparr>enabled = True, message = ''''\<rparr>)
      else \<lparr>enabled = True, message = ''''\<rparr>)"

section \<open>Tasks, errors and the HTTP collaborator\<close>

text \<open>
  \<^verbatim>\<open>Task\<close> (upload.service.ts), with the properties the services read. The identifier
  \<^verbatim>\<open>id\<close> is \<open>task_id\<close>.
\<close>

record task =
  task_id :: nat
  status :: string
  errorMessage :: "string option"
  progressMessage :: "string option"
  progressPercentage :: "real option"

text \<open>
  A JavaScript \<^verbatim>\<open>Error\<close>: its message and the \<^verbatim>\<open>task\<close> property that the upload loop
  attaches to it (\<^verbatim>\<open>(error as any).task = task\<close>).
\<close>

datatype js_error = Error (err_message: string) (err_task: "task option")

text \<open>
  Angular's \<^verbatim>\<open>HttpErrorResponse\<close>: the body \<^verbatim>\<open>error.error\<close> is an \<^verbatim>\<open>ErrorEvent\<close> (with its
  message), a string, an object (with its \<^verbatim>\<open>message\<close> and \<^verbatim>\<open>error\<close> properties) or
  absent.
\<close>

datatype error_body =
    NoBody
  | ErrorEventBody string
  | TextBody string
  | ObjectBody "string option" "string option"

record HttpErrorResponse =
  he_error :: error_body
  he_status :: nat
  he_message :: string

text \<open>What an HTTP call answers: the error response or the parsed body.\<close>

type_synonym 'a response = "HttpErrorResponse + 'a"

text \<open>\<^verbatim>\<open>String.prototype.includes\<close> and the decimal a template literal prints.\<close>

fun str_includes :: "string \<Rightarrow> string \<Rightarrow> bool" where
  "str_includes [] sub = (sub = [])"
| "str_includes (c # cs) sub = (take (length sub) (c # cs) = sub \<or> str_includes cs sub)"

fun string_of_nat :: "nat \<Rightarrow> string" where
  "string_of_nat n =
     (if n < 10 then [''0123456789'' ! n]
      else string_of_nat (n div 10) @ [''0123456789'' ! (n mod 10)])"

declare string_of_nat.simps [simp del]

text \<open>The rxjs operator \<^verbatim>\<open>catchError\<close> on a single-valued sequence.\<close>

definition catchError :: "('e \<Rightarrow> 'f + 'a) \<Rightarrow> 'e + 'a \<Rightarrow> 'f + 'a" where
  "catchError handler r = (case r of Inl e \<Rightarrow> handler e | Inr v \<Rightarrow> Inr v)"

text \<open>\<^verbatim>\<open>UploadService.handleError\<close>: the \<^verbatim>\<open>Error\<close> thrown in place of the HTTP error.\<close>

definition handleError :: "HttpErrorResponse \<Rightarrow> js_error" where
  "handleError error =
     Error
       (case he_error error of
          ErrorEventBody m \<Rightarrow> ''Error: '' @ m
        | body \<Rightarrow>
            (let errorMessage = ''Error Code: '' @ string_of_nat (he_status error)
                                @ [CHR 0x0A] @ ''Message: '' @ he_message error
             in case body of
                  TextBody s \<Rightarrow>
                    if s = [] then errorMessage
                    else if str_includes s ''<!doctype'' \<or> str_includes s ''<html'' then
                      ''Backend server is not running or endpoint not found. Please check if the Spring backend is running on port 9000.''
                    else s
                | ObjectBody m e \<Rightarrow>
                    if str_or m [] \<noteq> [] then str_or m []
                    else if str_or e [] \<noteq> [] then str_or e []
                    else errorMessage
                | _ \<Rightarrow> errorMessage))
       None"

section \<open>The subscriber and the world the loops act on\<close>

text \<open>
  An event object of a progress sequence. The upload sequence sets \<^verbatim>\<open>progress\<close>,
  \<^verbatim>\<open>task\<close>, \<^verbatim>\<open>completed\<close>; the download sequence sets \<^verbatim>\<open>progress\<close>, \<^verbatim>\<open>blob\<close>,
  \<^verbatim>\<open>filename\<close>. A property that is not set is \<open>None\<close>.
\<close>

type_synonym blob = string

record progress_event =
  progress :: real
  ev_task :: "task option"
  completed :: "bool option"
  ev_blob :: "blob option"
  filename :: "string option"

datatype notification = OnNext progress_event | OnError js_error | OnComplete

datatype http_request =
    GetFileStatus
  | PostUploadAsync string
  | PostDownloadAsync string
  | GetTask nat
  | GetTaskResult nat
  | PostTaskCancel nat

text \<open>
  What happens, in order: a request is sent, a timer is set (\<^verbatim>\<open>setTimeout\<close>, in
  milliseconds), a notification reaches the subscriber.
\<close>

datatype action = Http http_request | SetTimeout nat | Deliver notification

text \<open>
  The \<^verbatim>\<open>observer\<close> handed to the function given to \<^verbatim>\<open>new Observable\<close> is an rxjs
  \<^verbatim>\<open>Subscriber\<close>: once it is closed (after \<^verbatim>\<open>error\<close>, \<^verbatim>\<open>complete\<close> or
  \<^verbatim>\<open>unsubscribe\<close>) it drops every further notification. Neither sequence returns a
  teardown from that function, so \<^verbatim>\<open>unsubscribe\<close> closes the subscriber and does
  nothing else.
\<close>

record world =
  closed :: bool
  trace :: "action list"

definition observer_next :: "progress_event \<Rightarrow> world \<Rightarrow> world" where
  "observer_next ev w =
     (if closed w then w else w\<lparr>trace := trace w @ [Deliver (OnNext ev)]\<rparr>)"

definition observer_error :: "js_error \<Rightarrow> world \<Rightarrow> world" where
  "observer_error e w =
     (if closed w then w else w\<lparr>closed := True, trace := trace w @ [Deliver (OnError e)]\<rparr>)"

definition observer_complete :: "world \<Rightarrow> world" where
  "observer_complete w =
     (if closed w then w else w\<lparr>closed := True, trace := trace w @ [Deliver OnComplete]\<rparr>)"

definition unsubscribe :: "world \<Rightarrow> world" where
  "unsubscribe w = w\<lparr>closed := True\<rparr>"

definition http_send :: "http_request \<Rightarrow> world \<Rightarrow> world" where
  "http_send r w = w\<lparr>trace := trace w @ [Http r]\<rparr>"

definition setTimeout :: "nat \<Rightarrow> world \<Rightarrow> world" where
  "setTimeout ms w = w\<lparr>trace := trace w @ [SetTimeout ms]\<rparr>"

definition subscribed :: world where
  "subscribed = \<lparr>closed = False, trace = []\<rparr>"

section \<open>The upload and download polling loops\<close>

text \<open>
  A browser \<^verbatim>\<open>File\<close>: its \<^verbatim>\<open>name\<close> and its \<^verbatim>\<open>size\<close> in bytes. The name is a JavaScript
  string, a sequence of UTF-16 code units: \<^verbatim>\<open>lastIndexOf\<close> and \<^verbatim>\<open>substring\<close> count in
  code units. \<open>utf16\<close> gives the code units of an ASCII literal.
\<close>

type_synonym js_string = "nat list"

definition utf16 :: "string \<Rightarrow> js_string" where
  "utf16 s = map of_char s"

record File =
  file_name :: js_string
  file_size :: nat

text \<open>
  \<^verbatim>\<open>startUploadTask\<close>: no request without a file; otherwise the POST, whose error is
  replaced by \<open>handleError\<close>.
\<close>

definition startUploadTask ::
  "string \<Rightarrow> File option \<Rightarrow> task response \<Rightarrow> world \<Rightarrow> world \<times> (js_error + task)" where
  "startUploadTask fileType f resp w =
     (case f of
        None \<Rightarrow> (w, Inl (Error ''No file provided for upload'' None))
      | Some _ \<Rightarrow> (http_send (PostUploadAsync fileType) w, catchError (Inl \<circ> handleError) resp))"


definition getTaskStatus :: "nat \<Rightarrow> task response \<Rightarrow> world \<Rightarrow> world \<times> (js_error + task)" where
  "getTaskStatus taskId resp w =
     (http_send (GetTask taskId) w, catchError (Inl \<circ> handleError) resp)"

definition downloadTaskResult :: "nat \<Rightarrow> blob response \<Rightarrow> world \<Rightarrow> world \<times> (js_error + blob)" where
  "downloadTaskResult taskId resp w =
     (http_send (GetTaskResult taskId) w, catchError (Inl \<circ> handleError) resp)"

text \<open>
  \<^verbatim>\<open>pollUploadTaskStatus(taskId, observer, fileType, pollCount)\<close>. The observer is the
  subscriber of the world. The task endpoint is \<open>srv\<close>: the invocation with poll count
  \<open>n\<close> sends one request and \<open>srv n\<close> is its answer. The timer's callback is the
  recursive call.
\<close>

function pollUploadTaskStatus ::
  "nat \<Rightarrow> (nat \<Rightarrow> task response) \<Rightarrow> string \<Rightarrow> nat \<Rightarrow> world \<Rightarrow> world" where
  "pollUploadTaskStatus taskId srv fileType pollCount w =
     (let maxPolls = 240 in
      if pollCount \<ge> maxPolls then
        observer_error (Error ''Upload timeout - task is taking too long'' None) w
      else
        (case getTaskStatus taskId (srv pollCount) w of
           (w1, Inr t) \<Rightarrow>
             if status t = ''COMPLETED'' then
               observer_complete
                 (observer_next \<lparr>progress = 100, ev_task = Some t, completed = Some True,
                                 ev_blob = None, filename = None\<rparr> w1)
             else if status t = ''FAILED'' then
               observer_error (Error (str_or (errorMessage t) ''Upload failed'') (Some t)) w1
             else if status t = ''CANCELLED'' then
               observer_error (Error ''Upload was cancelled'' None) w1
             else if status t = ''PENDING'' \<or> status t = ''RUNNING'' then
               pollUploadTaskStatus taskId srv fileType (pollCount + 1)
                 (setTimeout 2000
                    (observer_next \<lparr>progress = num_or (progressPercentage t) 0,
                                    ev_task = Some t, completed = None,
                                    ev_blob = None, filename = None\<rparr> w1))
             else
               observer_error (Error (''Unknown task status: '' @ status t) None) w1
         | (w1, Inl error) \<Rightarrow>
             pollUploadTaskStatus taskId srv fileType (pollCount + 1) (setTimeout 2000 w1)))"
  by pat_completeness auto
termination
  by (relation "measure (\<lambda>(taskId, srv, fileType, pollCount, w). 240 - pollCount)") auto

declare pollUploadTaskStatus.simps [simp del]

text \<open>
  \<^verbatim>\<open>pollTaskStatus\<close>, the download loop. \<open>result\<close> is the answer of the result
  endpoint, requested once the task is COMPLETED.
\<close>

function pollTaskStatus ::
  "nat \<Rightarrow> (nat \<Rightarrow> task response) \<Rightarrow> blob response \<Rightarrow> string \<Rightarrow> nat \<Rightarrow> world \<Rightarrow> world" where
  "pollTaskStatus taskId srv result fileType pollCount w =
     (let maxPolls = 120 in
      if pollCount \<ge> maxPolls then
        observer_error (Error ''Download timeout - task is taking too long'' None) w
      else
        (case getTaskStatus taskId (srv pollCount) w of
           (w1, Inr t) \<Rightarrow>
             if status t = ''COMPLETED'' then
               (case downloadTaskResult taskId result w1 of
                  (w2, Inr b) \<Rightarrow>
                    observer_complete
                      (observer_next \<lparr>progress = 100, ev_task = None, completed = None,
                                      ev_blob = Some b,
                                      filename = Some (fileType @ ''_data.tsv'')\<rparr> w2)
                | (w2, Inl error) \<Rightarrow> observer_error error w2)
             else if status t = ''FAILED'' then
               observer_error (Error (str_or (errorMessage t) ''Download failed'') None) w1
             else if status t = ''CANCELLED'' then
               observer_error (Error ''Download was cancelled'' None) w1
             else if status t = ''PENDING'' \<or> status t = ''RUNNING'' then
               pollTaskStatus taskId srv result fileType (pollCount + 1)
                 (setTimeout 5000
                    (observer_next \<lparr>progress = num_or (progressPercentage t) 0,
                                    ev_task = None, completed = None,
                                    ev_blob = None, filename = None\<rparr> w1))
             else
               observer_error (Error (''Unknown task status: '' @ status t) None) w1
         | (w1, Inl error) \<Rightarrow>
             pollTaskStatus taskId srv result fileType (pollCount + 1) (setTimeout 5000 w1)))"
  by pat_completeness auto
termination
  by (relation "measure (\<lambda>(taskId, srv, result, fileType, pollCount, w). 120 - pollCount)") auto

declare pollTaskStatus.simps [simp del]

text \<open>
  \<^verbatim>\<open>uploadFileAsync\<close> and \<^verbatim>\<open>downloadDataFileAsync\<close>: what subscribing runs. \<open>started\<close> is
  the answer to the POST that creates the task.
\<close>

definition uploadFileAsync ::
  "string \<Rightarrow> File option \<Rightarrow> task response \<Rightarrow> (nat \<Rightarrow> task response) \<Rightarrow> world \<Rightarrow> world" where
  "uploadFileAsync fileType f started srv w =
     (case startUploadTask fileType f started w of
        (w1, Inr t) \<Rightarrow>
          if status t = ''FAILED'' then
            observer_error (Error (str_or (errorMessage t) ''Upload failed'') None) w1
          else pollUploadTaskStatus (task_id t) srv fileType 0 w1
      | (w1, Inl error) \<Rightarrow> observer_error error w1)"


section \<open>Upload validation and the upload component\<close>

text \<open>
  \<^verbatim>\<open>String.prototype.toLowerCase\<close> belongs to the runtime. On a string of ASCII code
  units it maps the letters A to Z to a to z and keeps every other unit. On any other
  string it applies the Unicode case mapping, which is not part of this repository and may
  change the number of code units (U+0130 becomes the two units U+0069 U+0307): there the
  result is taken from the parameter \<open>unicodeLower\<close>, about which nothing is assumed.
  \<^verbatim>\<open>lastIndexOf\<close> is -1 when the unit does not occur; \<^verbatim>\<open>substring(start)\<close> clamps its
  argument to the string.
\<close>

definition ascii_lower :: "nat \<Rightarrow> nat" where
  "ascii_lower u = (if 65 \<le> u \<and> u \<le> 90 then u + 32 else u)"

definition is_ascii :: "js_string \<Rightarrow> bool" where
  "is_ascii s = list_all (\<lambda>u. u < 128) s"

definition toLowerCase :: "(js_string \<Rightarrow> js_string) \<Rightarrow> js_string \<Rightarrow> js_string" where
  "toLowerCase unicodeLower s = (if is_ascii s then map ascii_lower s else unicodeLower s)"

definition lastIndexOf :: "js_string \<Rightarrow> nat \<Rightarrow> int" where
  "lastIndexOf s c =
     (if c \<in> set s then int (length s) - 1 - int (length (takeWhile (\<lambda>x. x \<noteq> c) (rev s)))
      else - 1)"

definition substring :: "js_string \<Rightarrow> int \<Rightarrow> js_string" where
  "substring s start = drop (nat (max 0 (min start (int (length s))))) s"

text \<open>
  \<^verbatim>\<open>isValidFileType\<close>: the index of the last dot is taken in the name as given, the
  substring in the lower-cased name.
\<close>

definition isValidFileType :: "(js_string \<Rightarrow> js_string) \<Rightarrow> File \<Rightarrow> bool" where
  "isValidFileType unicodeLower f =
     (let validTypes = [utf16 ''.tsv'', utf16 ''.txt''];
          fileExtension = substring (toLowerCase unicodeLower (file_name f))
                            (lastIndexOf (file_name f) (of_char CHR ''.''))
      in fileExtension \<in> set validTypes)"

definition isValidFileSize :: "File \<Rightarrow> nat \<Rightarrow> bool" where
  "isValidFileSize f maxSizeMB = (let maxSizeBytes = maxSizeMB * 1024 * 1024 in file_size f \<le> maxSizeBytes)"

text \<open>
  The view-model \<^verbatim>\<open>UploadFile\<close> of upload.component.ts; its \<^verbatim>\<open>status\<close> tag is
  \<^verbatim>\<open>'pending' | 'processing' | 'success' | 'error' | 'blocked'\<close>. Fields that share a
  name with a task or a status entry carry the prefix \<open>uf_\<close>.
\<close>

datatype file_state = StPending | StProcessing | StSuccess | StError | StBlocked

record UploadFile =
  uf_id :: string
  displayName :: string
  description :: string
  uf_status :: file_state
  uf_count :: "nat option"
  uf_progress :: "real option"
  uf_progressMessage :: "string option"
  uf_errorMessage :: "string option"
  dependencyMessage :: "string option"
  uf_taskId :: "nat option"
  canUpload :: bool
  hasValidationReport :: "bool option"

text \<open>The body of the \<^verbatim>\<open>forEach\<close> of \<^verbatim>\<open>updateUploadFilesStatus\<close>, for one file.\<close>

definition pendingUnlessError :: "UploadFile \<Rightarrow> UploadFile" where
  "pendingUnlessError f = (if uf_status f \<noteq> StError then f\<lparr>uf_status := StPending\<rparr> else f)"

definition updateUploadFile :: "UploadStatus \<Rightarrow> UploadFile \<Rightarrow> UploadFile" where
  "updateUploadFile statusData f =
     (let f1 =
            (case statusData (uf_id f) of
               Some st \<Rightarrow>
                 if truthy (st_processing st) then
                   f\<lparr>uf_status := StProcessing,
                     uf_progress := Some (num_or (st_progressPercentage st) 0),
                     uf_progressMessage :=
                       Some (str_or (st_progressMessage st) ''Processing your file...''),
                     uf_taskId := st_taskId st\<rparr>
                 else if truthy (st_failed st) then
                   f\<lparr>uf_status := StError,
                     uf_errorMessage :=
                       Some (case st_errorSummary st of
                               Some es \<Rightarrow>
                                 ''Upload failed: '' @ string_of_nat (totalErrors es) @ '' errors''
                             | None \<Rightarrow> ''Upload failed due to error''),
                     uf_taskId := st_taskId st,
                     hasValidationReport :=
                       (case st_errorSummary st of
                          Some es \<Rightarrow> Some (totalErrors es > 0)
                        | None \<Rightarrow> None)\<rparr>
                 else if st_exists st then
                   f\<lparr>uf_status := StSuccess, uf_count := Some (st_count st)\<rparr>
                 else pendingUnlessError f
             | None \<Rightarrow> pendingUnlessError f);
          dependencyCheck = checkUploadDependencies (uf_id f1) statusData;
          f2 = f1\<lparr>canUpload := enabled dependencyCheck\<rparr>
      in if \<not> enabled dependencyCheck then
           f2\<lparr>uf_status := StBlocked, dependencyMessage := Some (message dependencyCheck)\<rparr>
         else f2)"

definition updateUploadFilesStatus :: "UploadStatus \<Rightarrow> UploadFile list \<Rightarrow> UploadFile list" where
  "updateUploadFilesStatus statusData files = map (updateUploadFile statusData) files"

text \<open>
  The component: \<^verbatim>\<open>lastRefreshTime\<close> is a time in milliseconds; the subject
  \<^verbatim>\<open>destroy$\<close> is left out, the component is not destroyed while a call is followed.
\<close>

record UploadComponent =
  uploadFiles :: "UploadFile list"
  selectedFile :: "File option"
  selectedFileType :: string
  showUploadModal :: bool
  isLoading :: bool
  lastRefreshTime :: nat

text \<open>The four files the component starts with.\<close>

definition newUploadFile :: "string \<Rightarrow> string \<Rightarrow> string \<Rightarrow> UploadFile" where
  "newUploadFile i n d =
     \<lparr>uf_id = i, displayName = n, description = d, uf_status = StPending, uf_count = None,
      uf_progress = None, uf_progressMessage = None, uf_errorMessage = None,
      dependencyMessage = None, uf_taskId = None, canUpload = True,
      hasValidationReport = None\<rparr>"

definition initialUploadFiles :: "UploadFile list" where
  "initialUploadFiles =
     [newUploadFile ''styles'' ''Styles Data''
        ''Upload style master data - brand, category, MRP, gender info'',
      newUploadFile ''stores'' ''Stores Data''
        ''Upload store master data - branch and city information'',
      newUploadFile ''skus'' ''SKUs Data''
        ''Upload SKU master data - style-size combinations'',
      newUploadFile ''sales'' ''Sales Data''
        ''Upload sales transaction data - depends on styles, stores, and SKUs'']"

definition closeUploadModal :: "UploadComponent \<Rightarrow> UploadComponent" where
  "closeUploadModal c = c\<lparr>showUploadModal := False, selectedFile := None, selectedFileType := []\<rparr>"

section \<open>The theme store\<close>

text \<open>
  \<^verbatim>\<open>ThemeService\<close>: the two signals, the value held by \<^verbatim>\<open>themeStateSubject\<close>, the
  \<^verbatim>\<open>data-theme\<close> attribute and the \<^verbatim>\<open>theme-color\<close> meta content of the document, and the
  item saved in local storage.
\<close>

datatype ThemeMode = Light | Dark | System









section \<open>The data-fetch services\<close>

text \<open>
  Each call is modelled by what it makes of the answer to its HTTP request. A call that
  rethrows (\<^verbatim>\<open>throw error\<close>) fails with the \<open>HttpErrorResponse\<close> it caught; a call of
  \<^verbatim>\<open>UploadService\<close> fails with the \<^verbatim>\<open>Error\<close> built by \<open>handleError\<close>. The value
  \<^verbatim>\<open>{} as T\<close> is \<open>EmptyObject\<close>; a new empty \<^verbatim>\<open>Blob\<close> is the empty string. A body
  that a service hands to its caller without reading it (a task of the task service, a
  result row, a report row) is kept as its JSON text, \<open>json\<close>.
\<close>

type_synonym json = string

datatype 'a js_object = Object 'a | EmptyObject

definition empty_entry :: file_status where
  "empty_entry = \<lparr>st_exists = False, st_count = 0, st_processing = None, st_failed = None,
     st_progressPercentage = None, st_progressMessage = None, st_errorSummary = None,
     st_taskId = None\<rparr>"

definition fallbackStatus :: UploadStatus where
  "fallbackStatus = [''styles'' \<mapsto> empty_entry, ''stores'' \<mapsto> empty_entry,
                     ''skus'' \<mapsto> empty_entry, ''sales'' \<mapsto> empty_entry]"

text \<open>
  \<^verbatim>\<open>UploadService.getUploadStatus\<close>; the second component is the value of
  \<^verbatim>\<open>uploadStatusSubject\<close> afterwards.
\<close>

definition getUploadStatus ::
  "UploadStatus response \<Rightarrow> UploadStatus \<Rightarrow> (js_error + UploadStatus) \<times> UploadStatus" where
  "getUploadStatus resp subject =
     (case resp of
        Inr snapshot \<Rightarrow> (Inr snapshot, snapshot)
      | Inl error \<Rightarrow>
          (case he_error error of
             TextBody s \<Rightarrow>
               if s \<noteq> [] then (Inr fallbackStatus, fallbackStatus)
               else (Inl (handleError error), subject)
           | _ \<Rightarrow> (Inl (handleError error), subject)))"

definition UploadService_getAllTasks :: "task list response \<Rightarrow> js_error + task list" where
  "UploadService_getAllTasks resp = catchError (Inl \<circ> handleError) resp"

definition UploadService_getErrorReport :: "json response \<Rightarrow> js_error + json" where
  "UploadService_getErrorReport resp = catchError (Inl \<circ> handleError) resp"

definition UploadService_cancelTask :: "json response \<Rightarrow> js_error + json" where
  "UploadService_cancelTask resp = catchError (Inl \<circ> handleError) resp"

definition UploadService_clearAllData :: "json response \<Rightarrow> js_error + json" where
  "UploadService_clearAllData resp = catchError (Inl \<circ> handleError) resp"

subsection \<open>TaskService\<close>

record TaskStats =
  ts_total :: nat
  ts_running :: nat
  ts_completed :: nat
  ts_failed :: nat
  ts_cancelled :: nat

definition TaskService_getTasks :: "json list response \<Rightarrow> HttpErrorResponse + json list" where
  "TaskService_getTasks resp = catchError (\<lambda>error. Inr []) resp"

definition TaskService_getTask :: "json response \<Rightarrow> HttpErrorResponse + json js_object" where
  "TaskService_getTask resp = catchError (\<lambda>error. Inr EmptyObject) (map_sum id Object resp)"

definition TaskService_getTaskStats :: "TaskStats response \<Rightarrow> HttpErrorResponse + TaskStats" where
  "TaskService_getTaskStats resp =
     catchError (\<lambda>error. Inr \<lparr>ts_total = 0, ts_running = 0, ts_completed = 0, ts_failed = 0,
                              ts_cancelled = 0\<rparr>) resp"

definition TaskService_getTasksByStatus :: "json list response \<Rightarrow> HttpErrorResponse + json list" where
  "TaskService_getTasksByStatus resp = catchError (\<lambda>error. Inr []) resp"

definition TaskService_cancelTask :: "json response \<Rightarrow> HttpErrorResponse + json js_object" where
  "TaskService_cancelTask resp = catchError (\<lambda>error. Inr EmptyObject) (map_sum id Object resp)"

subsection \<open>DashboardService\<close>

record DashboardData =
  totalSalesRecords :: nat
  salesDataStatus :: string
  totalSkus :: nat
  totalStores :: nat
  totalStyles :: nat
  masterDataStatus :: string
  recentUploads :: nat
  uploadSuccessRate :: real
  recentActivityStatus :: string
  activeTasks :: nat
  pendingTasks :: nat
  processingStatus :: string

record NoosDashboardData =
  summary :: "string \<rightharpoonup> nat"
  totalResults :: nat
  lastRunDate :: "string option"
  hasResults :: bool
  percentages :: "string \<rightharpoonup> real"

definition getFallbackDashboardData :: DashboardData where
  "getFallbackDashboardData =
     \<lparr>totalSalesRecords = 0, salesDataStatus = ''No data available'',
      totalSkus = 0, totalStores = 0, totalStyles = 0, masterDataStatus = ''No data available'',
      recentUploads = 0, uploadSuccessRate = 0, recentActivityStatus = ''No recent activity'',
      activeTasks = 0, pendingTasks = 0, processingStatus = ''System offline''\<rparr>"

definition getDashboardMetrics :: "DashboardData response \<Rightarrow> HttpErrorResponse + DashboardData" where
  "getDashboardMetrics resp = catchError (\<lambda>error. Inr getFallbackDashboardData) resp"

definition getNoosDashboardData ::
  "NoosDashboardData response \<Rightarrow> HttpErrorResponse + NoosDashboardData" where
  "getNoosDashboardData resp =
     catchError (\<lambda>error. Inr \<lparr>summary = Map.empty, totalResults = 0, lastRunDate = None,
                              hasResults = False, percentages = Map.empty\<rparr>) resp"

definition getLatestNoosResults :: "json list response \<Rightarrow> HttpErrorResponse + json list" where
  "getLatestNoosResults resp = catchError (\<lambda>error. Inr []) resp"

definition getNoosResultsSummary ::
  "(string \<rightharpoonup> real) response \<Rightarrow> HttpErrorResponse + (string \<rightharpoonup> real)" where
  "getNoosResultsSummary resp = catchError (\<lambda>error. Inr Map.empty) resp"

definition downloadNoosResults :: "blob response \<Rightarrow> HttpErrorResponse + blob" where
  "downloadNoosResults resp = resp"

definition DashboardService_getTaskStats :: "json response \<Rightarrow> HttpErrorResponse + json js_object" where
  "DashboardService_getTaskStats resp =
     catchError (\<lambda>error. Inr EmptyObject) (map_sum id Object resp)"

definition getRecentTasks :: "json list response \<Rightarrow> HttpErrorResponse + json list" where
  "getRecentTasks resp = catchError (\<lambda>error. Inr []) resp"

definition DashboardService_runNoosAlgorithm :: "json response \<Rightarrow> HttpErrorResponse + json" where
  "DashboardService_runNoosAlgorithm resp = catchError (\<lambda>error. Inl error) resp"

definition runNoosAlgorithmSync :: "json response \<Rightarrow> HttpErrorResponse + json" where
  "runNoosAlgorithmSync resp = catchError (\<lambda>error. Inl error) resp"

definition DashboardService_getTask :: "json response \<Rightarrow> HttpErrorResponse + json js_object" where
  "DashboardService_getTask resp =
     catchError (\<lambda>error. Inr EmptyObject) (map_sum id Object resp)"

definition getSystemHealth :: "json list response \<Rightarrow> HttpErrorResponse + json list" where
  "getSystemHealth resp = catchError (\<lambda>error. Inr []) resp"

definition getNoosAnalytics :: "json list response \<Rightarrow> HttpErrorResponse + json list" where
  "getNoosAnalytics resp = catchError (\<lambda>error. Inr []) resp"

subsection \<open>AlgorithmParametersService\<close>

record AlgoParametersData =
  parameterSetName :: string
  isActive :: bool
  lastUpdated :: string
  liquidationThreshold :: real
  bestsellerMultiplier :: real
  minVolumeThreshold :: real
  consistencyThreshold :: real
  analysisStartDate :: string
  analysisEndDate :: string
  coreDurationMonths :: nat
  bestsellerDurationDays :: nat

text \<open>
  \<^verbatim>\<open>getFallbackParameters\<close>; \<open>now\<close> is \<^verbatim>\<open>new Date().toISOString()\<close> at the time of the
  call.
\<close>

definition getFallbackParameters :: "string \<Rightarrow> AlgoParametersData" where
  "getFallbackParameters now =
     \<lparr>parameterSetName = ''default'', isActive = True, lastUpdated = now,
      liquidationThreshold = 0.25, bestsellerMultiplier = 1.20, minVolumeThreshold = 25.0,
      consistencyThreshold = 0.75, analysisStartDate = ''2019-01-01'',
      analysisEndDate = ''2019-06-23'', coreDurationMonths = 6, bestsellerDurationDays = 90\<rparr>"

definition getParameterSets :: "AlgoParametersData list response \<Rightarrow> HttpErrorResponse + AlgoParametersData list" where
  "getParameterSets resp = catchError (\<lambda>error. Inr []) resp"

definition getDefaultParameters ::
  "string \<Rightarrow> AlgoParametersData response \<Rightarrow> HttpErrorResponse + AlgoParametersData" where
  "getDefaultParameters now resp = catchError (\<lambda>error. Inr (getFallbackParameters now)) resp"

definition getParameterSet ::
  "string \<Rightarrow> AlgoParametersData response \<Rightarrow> HttpErrorResponse + AlgoParametersData" where
  "getParameterSet now resp = catchError (\<lambda>error. Inr (getFallbackParameters now)) resp"

definition getCurrentParameters ::
  "string \<Rightarrow> AlgoParametersData response \<Rightarrow> HttpErrorResponse + AlgoParametersData" where
  "getCurrentParameters now resp = catchError (\<lambda>error. Inr (getFallbackParameters now)) resp"

definition getRecentParameterSets :: "AlgoParametersData list response \<Rightarrow> HttpErrorResponse + AlgoParametersData list" where
  "getRecentParameterSets resp = catchError (\<lambda>error. Inr []) resp"

definition saveParameterSet :: "AlgoParametersData response \<Rightarrow> HttpErrorResponse + AlgoParametersData" where
  "saveParameterSet resp = catchError (\<lambda>error. Inl error) resp"

definition updateParameterSet :: "AlgoParametersData response \<Rightarrow> HttpErrorResponse + AlgoParametersData" where
  "updateParameterSet resp = catchError (\<lambda>error. Inl error) resp"

definition activateParameterSet :: "AlgoParametersData response \<Rightarrow> HttpErrorResponse + AlgoParametersData" where
  "activateParameterSet resp = catchError (\<lambda>error. Inl error) resp"

subsection \<open>AlgorithmService\<close>

text \<open>
  The service has its own \<^verbatim>\<open>AlgoParametersData\<close>, here \<open>AlgoParams\<close>, with the field
  prefix \<open>ap_\<close>. The dates of its fallback come from the clock: \<open>yearAgo\<close> and \<open>today\<close>.
\<close>

record AlgoParams =
  ap_liquidationThreshold :: real
  ap_bestsellerMultiplier :: real
  ap_minVolumeThreshold :: real
  ap_consistencyThreshold :: real
  ap_algorithmLabel :: string
  ap_analysisStartDate :: "string option"
  ap_analysisEndDate :: "string option"

definition getDefaultParametersFallback :: "string \<Rightarrow> string \<Rightarrow> AlgoParams" where
  "getDefaultParametersFallback yearAgo today =
     \<lparr>ap_liquidationThreshold = 0.5, ap_bestsellerMultiplier = 2.0, ap_minVolumeThreshold = 10,
      ap_consistencyThreshold = 0.7, ap_algorithmLabel = ''Default'',
      ap_analysisStartDate = Some yearAgo, ap_analysisEndDate = Some today\<rparr>"

definition AlgorithmService_getCurrentParameters ::
  "string \<Rightarrow> string \<Rightarrow> AlgoParams response \<Rightarrow> HttpErrorResponse + AlgoParams" where
  "AlgorithmService_getCurrentParameters yearAgo today resp =
     catchError (\<lambda>error. Inr (getDefaultParametersFallback yearAgo today)) resp"

definition AlgorithmService_getDefaultParameters ::
  "string \<Rightarrow> string \<Rightarrow> AlgoParams response \<Rightarrow> HttpErrorResponse + AlgoParams" where
  "AlgorithmService_getDefaultParameters yearAgo today resp =
     catchError (\<lambda>error. Inr (getDefaultParametersFallback yearAgo today)) resp"

definition updateCurrentParameters :: "AlgoParams \<Rightarrow> AlgoParams response \<Rightarrow> HttpErrorResponse + AlgoParams" where
  "updateCurrentParameters parameters resp = catchError (\<lambda>error. Inr parameters) resp"

definition runNoosAlgorithmAsync :: "json response \<Rightarrow> HttpErrorResponse + json js_object" where
  "runNoosAlgorithmAsync resp = catchError (\<lambda>error. Inr EmptyObject) (map_sum id Object resp)"

definition AlgorithmService_runNoosAlgorithm ::
  "json response \<Rightarrow> HttpErrorResponse + json js_object" where
  "AlgorithmService_runNoosAlgorithm resp =
     catchError (\<lambda>error. Inr EmptyObject) (map_sum id Object resp)"

definition getActiveParameterSets :: "AlgoParams list response \<Rightarrow> HttpErrorResponse + AlgoParams list" where
  "getActiveParameterSets resp = catchError (\<lambda>error. Inr []) resp"

definition AlgorithmService_getRecentParameterSets ::
  "AlgoParams list response \<Rightarrow> HttpErrorResponse + AlgoParams list" where
  "AlgorithmService_getRecentParameterSets resp = catchError (\<lambda>error. Inr []) resp"

definition createParameterSet :: "AlgoParams \<Rightarrow> AlgoParams response \<Rightarrow> HttpErrorResponse + AlgoParams" where
  "createParameterSet parameters resp = catchError (\<lambda>error. Inr parameters) resp"

subsection \<open>ReportsService\<close>

definition getNoosAnalyticsReport :: "json list response \<Rightarrow> HttpErrorResponse + json list" where
  "getNoosAnalyticsReport resp = catchError (\<lambda>error. Inr []) resp"

definition getSystemHealthReport :: "json list response \<Rightarrow> HttpErrorResponse + json list" where
  "getSystemHealthReport resp = catchError (\<lambda>error. Inr []) resp"

definition downloadNoosAnalyticsReport :: "blob response \<Rightarrow> HttpErrorResponse + blob" where
  "downloadNoosAnalyticsReport resp = catchError (\<lambda>error. Inr []) resp"

definition downloadSystemHealthReport :: "blob response \<Rightarrow> HttpErrorResponse + blob" where
  "downloadSystemHealthReport resp = catchError (\<lambda>error. Inr []) resp"

definition downloadNoosRun :: "blob response \<Rightarrow> HttpErrorResponse + blob" where
  "downloadNoosRun resp = catchError (\<lambda>error. Inr []) resp"

definition deleteNoosRun :: "unit response \<Rightarrow> HttpErrorResponse + unit" where
  "deleteNoosRun resp = catchError (\<lambda>error. Inl error) resp"

section \<open>The calls of the upload component\<close>

text \<open>
  A call of the component acts on the component itself, on the value held by
  \<^verbatim>\<open>uploadStatusSubject\<close> of the upload service, and on the chronological list of the
  requests, timers and notifications, as in \<open>trace\<close>.
\<close>

type_synonym page = "UploadComponent \<times> UploadStatus \<times> action list"

text \<open>
  \<^verbatim>\<open>fetchDataStatus\<close>, with the answer \<open>resp\<close> to its status request and the time \<open>now\<close>
  at which the answer arrives.
\<close>

definition fetchDataStatus :: "UploadStatus response \<Rightarrow> nat \<Rightarrow> page \<Rightarrow> page" where
  "fetchDataStatus resp now = (\<lambda>(c, subject, tr).
     (let c1 = c\<lparr>isLoading := True\<rparr>;
          tr1 = tr @ [Http GetFileStatus]
      in case getUploadStatus resp subject of
           (Inr data, subject1) \<Rightarrow>
             (c1\<lparr>uploadFiles := updateUploadFilesStatus data (uploadFiles c1),
                 lastRefreshTime := now,
                 isLoading := False\<rparr>, subject1, tr1)
         | (Inl error, subject1) \<Rightarrow>
             (c1\<lparr>isLoading := False,
                 uploadFiles := updateUploadFilesStatus fallbackStatus (uploadFiles c1)\<rparr>,
              subject1, tr1)))"

text \<open>
  \<^verbatim>\<open>uploadFiles.find(f => f.id === fileType)\<close> yields the first file with that id, and the
  assignments of a callback change that file in place.
\<close>

fun updateFirst :: "('a \<Rightarrow> bool) \<Rightarrow> ('a \<Rightarrow> 'a) \<Rightarrow> 'a list \<Rightarrow> 'a list" where
  "updateFirst p g [] = []"
| "updateFirst p g (x # xs) = (if p x then g x # xs else x # updateFirst p g xs)"

text \<open>
  The \<^verbatim>\<open>next\<close> callback of the subscription of \<open>uploadFile\<close>. \<open>toString\<close> is the conversion of a
  number to a string of the template literal. On a completed event the callback calls
  \<open>fetchDataStatus\<close>; the answer to that request is taken at once, as the sequence only
  completes afterwards and the subscription has no callback for that.
\<close>

definition uploadNext ::
  "(real \<Rightarrow> string) \<Rightarrow> UploadStatus response \<Rightarrow> nat \<Rightarrow> string \<Rightarrow> progress_event
     \<Rightarrow> page \<Rightarrow> page" where
  "uploadNext toString statusResp now fileTypeToUpload result = (\<lambda>(c, subject, tr).
     (case find (\<lambda>f. uf_id f = fileTypeToUpload) (uploadFiles c) of
        None \<Rightarrow> (c, subject, tr)
      | Some _ \<Rightarrow>
          (let c1 =
                 (case ev_task result of
                    Some t \<Rightarrow>
                      c\<lparr>uploadFiles :=
                          updateFirst (\<lambda>f. uf_id f = fileTypeToUpload)
                            (\<lambda>file. file\<lparr>uf_status := StProcessing,
                                          uf_progress := Some (progress result),
                                          uf_progressMessage :=
                                            Some (str_or (progressMessage t)
                                                    (''Processing... '' @ toString (progress result)
                                                       @ ''%'')),
                                          uf_taskId := Some (task_id t)\<rparr>)
                            (uploadFiles c)\<rparr>
                  | None \<Rightarrow> c)
           in if truthy (completed result) then
                fetchDataStatus statusResp now
                  (c1\<lparr>uploadFiles :=
                        updateFirst (\<lambda>f. uf_id f = fileTypeToUpload)
                          (\<lambda>file. file\<lparr>uf_status := StSuccess,
                                        uf_progress := Some 100,
                                        uf_progressMessage :=
                                          Some ''Upload completed successfully!''\<rparr>)
                          (uploadFiles c1)\<rparr>, subject, tr)
              else (c1, subject, tr))))"

text \<open>The \<^verbatim>\<open>error\<close> callback of that subscription.\<close>

definition mentionsValidation :: "string \<Rightarrow> bool" where
  "mentionsValidation m =
     (m \<noteq> [] \<and> (str_includes m ''validation'' \<or> str_includes m ''error''
                  \<or> str_includes m ''missing''))"

definition uploadError :: "string \<Rightarrow> js_error \<Rightarrow> page \<Rightarrow> page" where
  "uploadError fileTypeToUpload error = (\<lambda>(c, subject, tr).
     (case find (\<lambda>f. uf_id f = fileTypeToUpload) (uploadFiles c) of
        None \<Rightarrow> (c, subject, tr)
      | Some _ \<Rightarrow>
          (c\<lparr>uploadFiles :=
               updateFirst (\<lambda>f. uf_id f = fileTypeToUpload)
                 (\<lambda>file.
                    (let f1 = file\<lparr>uf_status := StError,
                                   uf_errorMessage :=
                                     Some (''Upload failed: '' @ err_message error),
                                   uf_progress := Some 0,
                                   uf_progressMessage := Some ''''\<rparr>
                     in case err_task error of
                          Some t \<Rightarrow>
                            (let f2 = f1\<lparr>uf_taskId := Some (task_id t)\<rparr>
                             in if mentionsValidation (err_message error)
                                then f2\<lparr>hasValidationReport := Some True\<rparr> else f2)
                        | None \<Rightarrow>
                            (if mentionsValidation (err_message error)
                             then f1\<lparr>hasValidationReport := Some True\<rparr> else f1)))
                 (uploadFiles c)\<rparr>, subject, tr)))"

text \<open>
  What happens in a subscription enters the list, and a notification that reaches the
  subscriber runs the callback given for it.
\<close>

fun callback :: "(progress_event \<Rightarrow> page \<Rightarrow> page) \<Rightarrow> (js_error \<Rightarrow> page \<Rightarrow> page) \<Rightarrow> action
     \<Rightarrow> page \<Rightarrow> page" where
  "callback onNext onError (Deliver (OnNext result)) s = onNext result s"
| "callback onNext onError (Deliver (OnError error)) s = onError error s"
| "callback onNext onError _ s = s"

definition happens :: "action \<Rightarrow> page \<Rightarrow> page" where
  "happens a = (\<lambda>(c, subject, tr). (c, subject, tr @ [a]))"

definition subscribe ::
  "(progress_event \<Rightarrow> page \<Rightarrow> page) \<Rightarrow> (js_error \<Rightarrow> page \<Rightarrow> page) \<Rightarrow> world \<Rightarrow> page \<Rightarrow> page" where
  "subscribe onNext onError run s =
     foldl (\<lambda>s a. callback onNext onError a (happens a s)) s (trace run)"

text \<open>
  \<^verbatim>\<open>UploadComponent.uploadFile\<close>: the guards, then the modal is closed and the upload
  sequence is subscribed to with a new subscriber and the two callbacks. \<open>started\<close> and
  \<open>srv\<close> are the answers to the POST and to the status polls, \<open>statusResp\<close> the answer to
  the status request of \<open>fetchDataStatus\<close>.
\<close>

definition uploadFile ::
  "(js_string \<Rightarrow> js_string) \<Rightarrow> (real \<Rightarrow> string) \<Rightarrow> task response \<Rightarrow> (nat \<Rightarrow> task response)
     \<Rightarrow> UploadStatus response \<Rightarrow> nat \<Rightarrow> page \<Rightarrow> page" where
  "uploadFile unicodeLower toString started srv statusResp now = (\<lambda>(c, subject, tr).
     (case selectedFile c of
        None \<Rightarrow> (c, subject, tr)
      | Some f \<Rightarrow>
          if selectedFileType c = [] then (c, subject, tr)
          else if \<not> isValidFileType unicodeLower f then (c, subject, tr)
          else if \<not> isValidFileSize f 50 then (c, subject, tr)
          else
            (let fileToUpload = f;
                 fileTypeToUpload = selectedFileType c
             in subscribe (uploadNext toString statusResp now fileTypeToUpload)
                  (uploadError fileTypeToUpload)
                  (uploadFileAsync fileTypeToUpload (Some fileToUpload) started srv subscribed)
                  (closeUploadModal c, subject, tr))))"

section \<open>Vocabulary of the properties\<close>

text \<open>A request to the task status endpoint; a notification that ends a sequence.\<close>

fun is_status_poll :: "action \<Rightarrow> bool" where
  "is_status_poll (Http (GetTask _)) = True"
| "is_status_poll _ = False"

fun is_terminal :: "action \<Rightarrow> bool" where
  "is_terminal (Deliver (OnError _)) = True"
| "is_terminal (Deliver OnComplete) = True"
| "is_terminal _ = False"

fun is_delivery :: "action \<Rightarrow> bool" where
  "is_delivery (Deliver _) = True"
| "is_delivery _ = False"

text \<open>
  The requests and timers of a trace, and the notifications that reached the subscriber.
\<close>

definition effects :: "action list \<Rightarrow> action list" where
  "effects tr = filter (\<lambda>a. \<not> is_delivery a) tr"

definition deliveries :: "action list \<Rightarrow> action list" where
  "deliveries tr = filter is_delivery tr"

text \<open>
  An answer that does not end the polling: a failed status request, or a task that is
  PENDING or RUNNING.
\<close>

definition pending_response :: "task response \<Rightarrow> bool" where
  "pending_response r =
     (case r of Inl _ \<Rightarrow> True | Inr t \<Rightarrow> status t = ''PENDING'' \<or> status t = ''RUNNING'')"

text \<open>The progress events of a poll that finds the task PENDING or RUNNING.\<close>

definition upload_progress :: "task \<Rightarrow> progress_event" where
  "upload_progress t =
     \<lparr>progress = num_or (progressPercentage t) 0, ev_task = Some t, completed = None,
      ev_blob = None, filename = None\<rparr>"

definition download_progress :: "task \<Rightarrow> progress_event" where
  "download_progress t =
     \<lparr>progress = num_or (progressPercentage t) 0, ev_task = None, completed = None,
      ev_blob = None, filename = None\<rparr>"


fun event_in_range :: "action \<Rightarrow> bool" where
  "event_in_range (Deliver (OnNext ev)) = (0 \<le> progress ev \<and> progress ev \<le> 100)"
| "event_in_range _ = True"



text \<open>
  The prerequisites of a file type as the data model states them: skus needs styles; sales
  needs styles, skus and stores; every other file type needs nothing.
\<close>

definition prerequisites :: "string \<Rightarrow> string list" where
  "prerequisites fileType =
     (if fileType = ''skus'' then [''styles'']
      else if fileType = ''sales'' then [''styles'', ''skus'', ''stores'']
      else [])"

section \<open>Sample data\<close>

text \<open>Tasks, endpoints and files used where a property is evaluated on a concrete input.\<close>

definition sample_task :: "string \<Rightarrow> real option \<Rightarrow> task" where
  "sample_task st p =
     \<lparr>task_id = 7, status = st, errorMessage = None, progressMessage = None,
      progressPercentage = p\<rparr>"

definition failed_task :: task where
  "failed_task = (sample_task ''FAILED'' None)\<lparr>errorMessage := Some ''bad header''\<rparr>"

definition always :: "task \<Rightarrow> nat \<Rightarrow> task response" where
  "always t i = Inr t"

definition three_running_then_completed :: "nat \<Rightarrow> task response" where
  "three_running_then_completed i =
     (if i < 3 then Inr (sample_task ''RUNNING'' (Some 25))
      else Inr (sample_task ''COMPLETED'' (Some 100)))"



definition loaded :: "nat \<Rightarrow> file_status" where
  "loaded n = empty_entry\<lparr>st_exists := True, st_count := n\<rparr>"

text \<open>
  Snapshots with an entry for each of the four file types: only styles loaded; styles and
  stores loaded; all four loaded. \<open>fallbackStatus\<close> is the one with nothing loaded.
\<close>

definition only_styles :: UploadStatus where
  "only_styles = fallbackStatus(''styles'' \<mapsto> loaded 12)"

definition styles_and_stores :: UploadStatus where
  "styles_and_stores = fallbackStatus(''styles'' \<mapsto> loaded 12, ''stores'' \<mapsto> loaded 3)"

definition all_loaded :: UploadStatus where
  "all_loaded = [''styles'' \<mapsto> loaded 12, ''stores'' \<mapsto> loaded 3, ''skus'' \<mapsto> loaded 40,
                 ''sales'' \<mapsto> loaded 900]"

definition component_with :: "File option \<Rightarrow> UploadComponent" where
  "component_with f =
     \<lparr>uploadFiles = initialUploadFiles, selectedFile = f, selectedFileType = ''styles'',
      showUploadModal = True, isLoading = False, lastRefreshTime = 0\<rparr>"

definition unavailable :: HttpErrorResponse where
  "unavailable = \<lparr>he_error = NoBody, he_status = 503, he_message = ''Service Unavailable''\<rparr>"

definition always_unavailable :: "nat \<Rightarrow> task response" where
  "always_unavailable i = Inl unavailable"

text \<open>
  A stand-in for the runtime's lower-casing where only ASCII names occur, and the
  conversion of a whole number to a string.
\<close>

definition keep_units :: "js_string \<Rightarrow> js_string" where
  "keep_units s = s"

definition whole_number :: "real \<Rightarrow> string" where
  "whole_number x = string_of_nat (nat \<lfloor>x\<rfloor>)"

definition sample_file :: "string \<Rightarrow> nat \<Rightarrow> File" where
  "sample_file n mb = \<lparr>file_name = utf16 n, file_size = mb * 1024 * 1024\<rparr>"

section \<open>One invocation of a polling loop\<close>

lemma world_ops_trace:
  "trace (http_send r w) = trace w @ [Http r]"
  "trace (setTimeout ms w) = trace w @ [SetTimeout ms]"
  "trace (unsubscribe w) = trace w"
  "trace (observer_next ev w) = (if closed w then trace w else trace w @ [Deliver (OnNext ev)])"
  "trace (observer_error e w) = (if closed w then trace w else trace w @ [Deliver (OnError e)])"
  "trace (observer_complete w) = (if closed w then trace w else trace w @ [Deliver OnComplete])"
  by (simp_all add: http_send_def setTimeout_def unsubscribe_def observer_next_def
        observer_error_def observer_complete_def)

lemma world_ops_closed:
  "closed (http_send r w) = closed w"
  "closed (setTimeout ms w) = closed w"
  "closed (unsubscribe w) = True"
  "closed (observer_next ev w) = closed w"
  "closed (observer_error e w) = True"
  "closed (observer_complete w) = True"
  by (simp_all add: http_send_def setTimeout_def unsubscribe_def observer_next_def
        observer_error_def observer_complete_def)

lemma upload_at_ceiling:
  "240 \<le> k \<Longrightarrow>
   pollUploadTaskStatus tid srv ft k w
     = observer_error (Error ''Upload timeout - task is taking too long'' None) w"
  by (subst pollUploadTaskStatus.simps) (simp add: Let_def)

lemma upload_on_request_error:
  "k < 240 \<Longrightarrow> srv k = Inl e \<Longrightarrow>
   pollUploadTaskStatus tid srv ft k w
     = pollUploadTaskStatus tid srv ft (k + 1) (setTimeout 2000 (http_send (GetTask tid) w))"
  by (subst pollUploadTaskStatus.simps) (simp add: getTaskStatus_def catchError_def Let_def)

lemma upload_on_task:
  "k < 240 \<Longrightarrow> srv k = Inr t \<Longrightarrow>
   pollUploadTaskStatus tid srv ft k w
     = (let w1 = http_send (GetTask tid) w in
        if status t = ''COMPLETED'' then
          observer_complete
            (observer_next \<lparr>progress = 100, ev_task = Some t, completed = Some True,
                            ev_blob = None, filename = None\<rparr> w1)
        else if status t = ''FAILED'' then
          observer_error (Error (str_or (errorMessage t) ''Upload failed'') (Some t)) w1
        else if status t = ''CANCELLED'' then
          observer_error (Error ''Upload was cancelled'' None) w1
        else if status t = ''PENDING'' \<or> status t = ''RUNNING'' then
          pollUploadTaskStatus tid srv ft (k + 1)
            (setTimeout 2000 (observer_next (upload_progress t) w1))
        else observer_error (Error (''Unknown task status: '' @ status t) None) w1)"
  by (subst pollUploadTaskStatus.simps)
     (simp add: getTaskStatus_def catchError_def Let_def upload_progress_def)

lemma pending_status_distinct:
  assumes "s = ''PENDING'' \<or> s = ''RUNNING''"
  shows "s \<noteq> ''COMPLETED''" "s \<noteq> ''FAILED''" "s \<noteq> ''CANCELLED''"
  using assms by auto

lemma upload_on_pending:
  assumes "k < 240" "srv k = Inr t" "status t = ''PENDING'' \<or> status t = ''RUNNING''"
  shows "pollUploadTaskStatus tid srv ft k w
           = pollUploadTaskStatus tid srv ft (k + 1)
               (setTimeout 2000 (observer_next (upload_progress t) (http_send (GetTask tid) w)))"
  using assms(3) pending_status_distinct[OF assms(3)]
  by (simp add: upload_on_task[where srv=srv and k=k and t=t, OF assms(1,2)] Let_def)

lemma download_at_ceiling:
  "120 \<le> k \<Longrightarrow>
   pollTaskStatus tid srv res ft k w
     = observer_error (Error ''Download timeout - task is taking too long'' None) w"
  by (subst pollTaskStatus.simps) (simp add: Let_def)

lemma download_on_request_error:
  "k < 120 \<Longrightarrow> srv k = Inl e \<Longrightarrow>
   pollTaskStatus tid srv res ft k w
     = pollTaskStatus tid srv res ft (k + 1) (setTimeout 5000 (http_send (GetTask tid) w))"
  by (subst pollTaskStatus.simps) (simp add: getTaskStatus_def catchError_def Let_def)

lemma download_on_task:
  "k < 120 \<Longrightarrow> srv k = Inr t \<Longrightarrow>
   pollTaskStatus tid srv res ft k w
     = (let w1 = http_send (GetTask tid) w in
        if status t = ''COMPLETED'' then
          (let w2 = http_send (GetTaskResult tid) w1 in
           case res of
             Inr b \<Rightarrow>
               observer_complete
                 (observer_next \<lparr>progress = 100, ev_task = None, completed = None,
                                 ev_blob = Some b, filename = Some (ft @ ''_data.tsv'')\<rparr> w2)
           | Inl e \<Rightarrow> observer_error (handleError e) w2)
        else if status t = ''FAILED'' then
          observer_error (Error (str_or (errorMessage t) ''Download failed'') None) w1
        else if status t = ''CANCELLED'' then
          observer_error (Error ''Download was cancelled'' None) w1
        else if status t = ''PENDING'' \<or> status t = ''RUNNING'' then
          pollTaskStatus tid srv res ft (k + 1)
            (setTimeout 5000 (observer_next (download_progress t) w1))
        else observer_error (Error (''Unknown task status: '' @ status t) None) w1)"
  by (subst pollTaskStatus.simps)
     (simp add: getTaskStatus_def downloadTaskResult_def catchError_def Let_def
        download_progress_def split: sum.split)

lemma download_on_pending:
  assumes "k < 120" "srv k = Inr t" "status t = ''PENDING'' \<or> status t = ''RUNNING''"
  shows "pollTaskStatus tid srv res ft k w
           = pollTaskStatus tid srv res ft (k + 1)
               (setTimeout 5000 (observer_next (download_progress t) (http_send (GetTask tid) w)))"
  using assms(3) pending_status_distinct[OF assms(3)]
  by (simp add: download_on_task[where srv=srv and k=k and t=t, OF assms(1,2)] Let_def)

lemma pendingD:
  "pending_response (Inr t) \<Longrightarrow> status t = ''PENDING'' \<or> status t = ''RUNNING''"
  by (simp add: pending_response_def)

section \<open>The dependency checker\<close>

text \<open>
  C3. \<open>checkUploadDependencies\<close> is a total function of the file type and the snapshot.
  For styles and stores it enables the upload whatever the snapshot. For skus it enables
  exactly when the snapshot has an entry for styles whose \<^verbatim>\<open>exists\<close> is true, and otherwise
  disables with the message that states the upload order. For sales it enables exactly
  when styles, skus and stores all have such an entry, and otherwise disables with a
  message that lists every prerequisite without one, joined by a comma and a space; with
  none of the three present it lists all three.
\<close>

theorem checkUploadDependencies_rules:
  "checkUploadDependencies ''styles'' s = \<lparr>enabled = True, message = ''''\<rparr>
   \<and> checkUploadDependencies ''stores'' s = \<lparr>enabled = True, message = ''''\<rparr>
   \<and> enabled (checkUploadDependencies ''skus'' s)
         = (\<exists>e. s ''styles'' = Some e \<and> st_exists e)
   \<and> (\<not> (\<exists>e. s ''styles'' = Some e \<and> st_exists e) \<longrightarrow>
         checkUploadDependencies ''skus'' s
           = \<lparr>enabled = False,
              message = ''Upload styles first (styles '' @ arrow @ '' skus '' @ arrow
                          @ '' sales)''\<rparr>)
   \<and> enabled (checkUploadDependencies ''sales'' s)
         = ((\<exists>e. s ''styles'' = Some e \<and> st_exists e)
            \<and> (\<exists>e. s ''skus'' = Some e \<and> st_exists e)
            \<and> (\<exists>e. s ''stores'' = Some e \<and> st_exists e))
   \<and> (\<not> enabled (checkUploadDependencies ''sales'' s) \<longrightarrow>
         message (checkUploadDependencies ''sales'' s)
           = ''Upload ''
             @ join (filter (\<lambda>k. \<not> (\<exists>e. s k = Some e \<and> st_exists e))
                       [''styles'', ''skus'', ''stores'']) '', ''
             @ '' first'')
   \<and> (\<not> (\<exists>e. s ''styles'' = Some e \<and> st_exists e)
        \<and> \<not> (\<exists>e. s ''skus'' = Some e \<and> st_exists e)
        \<and> \<not> (\<exists>e. s ''stores'' = Some e \<and> st_exists e) \<longrightarrow>
         checkUploadDependencies ''sales'' s
           = \<lparr>enabled = False, message = ''Upload styles, skus, stores first''\<rparr>)"
proof -
  have x: "exists_in s k = (\<exists>e. s k = Some e \<and> st_exists e)" for k
    by (simp add: exists_in_def split: option.split)
  show ?thesis
    unfolding x[symmetric] by (simp add: checkUploadDependencies_def Let_def)
qed

theorem checkUploadDependencies_rules_witness:
  "checkUploadDependencies ''skus'' fallbackStatus
     = \<lparr>enabled = False,
        message = ''Upload styles first (styles '' @ arrow @ '' skus '' @ arrow @ '' sales)''\<rparr>
   \<and> checkUploadDependencies ''sales'' fallbackStatus
       = \<lparr>enabled = False, message = ''Upload styles, skus, stores first''\<rparr>
   \<and> checkUploadDependencies ''sales'' Map.empty
       = \<lparr>enabled = False, message = ''Upload styles, skus, stores first''\<rparr>
   \<and> enabled (checkUploadDependencies ''skus'' only_styles)
   \<and> \<not> enabled (checkUploadDependencies ''sales'' only_styles)
   \<and> message (checkUploadDependencies ''sales'' only_styles) = ''Upload skus, stores first''
   \<and> \<not> enabled (checkUploadDependencies ''sales'' styles_and_stores)
   \<and> message (checkUploadDependencies ''sales'' styles_and_stores) = ''Upload skus first''
   \<and> enabled (checkUploadDependencies ''sales'' all_loaded)"
proof -
  have f: "\<not> (\<exists>e. fallbackStatus k = Some e \<and> st_exists e)" for k
    by (simp add: fallbackStatus_def empty_entry_def)
  have o: "(\<exists>e. only_styles k = Some e \<and> st_exists e) = (k = ''styles'')" for k
    by (simp add: only_styles_def fallbackStatus_def empty_entry_def loaded_def)
  have t: "(\<exists>e. styles_and_stores k = Some e \<and> st_exists e) = (k = ''styles'' \<or> k = ''stores'')"
    for k
    by (auto simp add: styles_and_stores_def fallbackStatus_def empty_entry_def loaded_def)
  have a: "(\<exists>e. all_loaded k = Some e \<and> st_exists e)
             = (k = ''styles'' \<or> k = ''stores'' \<or> k = ''skus'' \<or> k = ''sales'')" for k
    by (auto simp add: all_loaded_def empty_entry_def loaded_def)
  from checkUploadDependencies_rules [of fallbackStatus]
       checkUploadDependencies_rules [of Map.empty]
       checkUploadDependencies_rules [of only_styles]
       checkUploadDependencies_rules [of styles_and_stores]
       checkUploadDependencies_rules [of all_loaded]
  show ?thesis
    by (simp add: f o t a)
qed

section \<open>Runs that never reach a terminal status\<close>

lemma upload_pending_run:
  assumes pend: "\<forall>i. pending_response (srv i)"
  shows "k \<le> 240 \<Longrightarrow> \<not> closed w \<Longrightarrow>
         \<exists>ys. trace (pollUploadTaskStatus tid srv ft k w)
                = trace w @ ys
                  @ [Deliver (OnError (Error ''Upload timeout - task is taking too long'' None))]
            \<and> length (filter is_status_poll ys) = 240 - k
            \<and> (\<forall>a \<in> set ys. \<not> is_terminal a)"
proof (induction "240 - k" arbitrary: k w)
  case 0
  then have "240 \<le> k" by simp
  with 0 show ?case
    by (intro exI[of _ "[]"]) (simp add: upload_at_ceiling world_ops_trace)
next
  case (Suc n)
  then have k: "k < 240" and n: "n = 240 - (k + 1)" and k1: "k + 1 \<le> 240" by simp_all
  show ?case
  proof (cases "srv k")
    case (Inl e)
    let ?w = "setTimeout 2000 (http_send (GetTask tid) w)"
    have "\<not> closed ?w" using Suc.prems by (simp add: world_ops_closed)
    from Suc.hyps(1)[OF n k1 this] obtain ys where
      ys: "trace (pollUploadTaskStatus tid srv ft (k + 1) ?w)
             = trace ?w @ ys
                 @ [Deliver (OnError (Error ''Upload timeout - task is taking too long'' None))]"
          "length (filter is_status_poll ys) = 240 - (k + 1)"
          "\<forall>a \<in> set ys. \<not> is_terminal a"
      by blast
    have step: "pollUploadTaskStatus tid srv ft k w = pollUploadTaskStatus tid srv ft (k + 1) ?w"
      by (rule upload_on_request_error[where srv=srv and k=k and e=e, OF k Inl])
    have tr: "trace ?w = trace w @ [Http (GetTask tid), SetTimeout 2000]"
      by (simp add: world_ops_trace)
    show ?thesis
      unfolding step ys(1) tr using ys(2,3) k
      by (intro exI[of _ "[Http (GetTask tid), SetTimeout 2000] @ ys"]) simp
  next
    case (Inr t)
    with pend[rule_format, of k] have st: "status t = ''PENDING'' \<or> status t = ''RUNNING''"
      by (simp add: pendingD)
    let ?w = "setTimeout 2000 (observer_next (upload_progress t) (http_send (GetTask tid) w))"
    have "\<not> closed ?w" using Suc.prems by (simp add: world_ops_closed)
    from Suc.hyps(1)[OF n k1 this] obtain ys where
      ys: "trace (pollUploadTaskStatus tid srv ft (k + 1) ?w)
             = trace ?w @ ys
                 @ [Deliver (OnError (Error ''Upload timeout - task is taking too long'' None))]"
          "length (filter is_status_poll ys) = 240 - (k + 1)"
          "\<forall>a \<in> set ys. \<not> is_terminal a"
      by blast
    have step: "pollUploadTaskStatus tid srv ft k w = pollUploadTaskStatus tid srv ft (k + 1) ?w"
      by (rule upload_on_pending[where srv=srv and k=k and t=t, OF k Inr st])
    have tr: "trace ?w
                = trace w @ [Http (GetTask tid), Deliver (OnNext (upload_progress t)), SetTimeout 2000]"
      using Suc.prems by (simp add: world_ops_trace world_ops_closed)
    show ?thesis
      unfolding step ys(1) tr using ys(2,3) k
      by (intro exI[of _ "[Http (GetTask tid), Deliver (OnNext (upload_progress t)),
                           SetTimeout 2000] @ ys"]) simp
  qed
qed

lemma download_pending_run:
  assumes pend: "\<forall>i. pending_response (srv i)"
  shows "k \<le> 120 \<Longrightarrow> \<not> closed w \<Longrightarrow>
         \<exists>ys. trace (pollTaskStatus tid srv res ft k w)
                = trace w @ ys
                  @ [Deliver (OnError (Error ''Download timeout - task is taking too long'' None))]
            \<and> length (filter is_status_poll ys) = 120 - k
            \<and> (\<forall>a \<in> set ys. \<not> is_terminal a)"
proof (induction "120 - k" arbitrary: k w)
  case 0
  then have "120 \<le> k" by simp
  with 0 show ?case
    by (intro exI[of _ "[]"]) (simp add: download_at_ceiling world_ops_trace)
next
  case (Suc n)
  then have k: "k < 120" and n: "n = 120 - (k + 1)" and k1: "k + 1 \<le> 120" by simp_all
  show ?case
  proof (cases "srv k")
    case (Inl e)
    let ?w = "setTimeout 5000 (http_send (GetTask tid) w)"
    have "\<not> closed ?w" using Suc.prems by (simp add: world_ops_closed)
    from Suc.hyps(1)[OF n k1 this] obtain ys where
      ys: "trace (pollTaskStatus tid srv res ft (k + 1) ?w)
             = trace ?w @ ys
                 @ [Deliver (OnError (Error ''Download timeout - task is taking too long'' None))]"
          "length (filter is_status_poll ys) = 120 - (k + 1)"
          "\<forall>a \<in> set ys. \<not> is_terminal a"
      by blast
    have step: "pollTaskStatus tid srv res ft k w = pollTaskStatus tid srv res ft (k + 1) ?w"
      by (rule download_on_request_error[where srv=srv and k=k and e=e, OF k Inl])
    have tr: "trace ?w = trace w @ [Http (GetTask tid), SetTimeout 5000]"
      by (simp add: world_ops_trace)
    show ?thesis
      unfolding step ys(1) tr using ys(2,3) k
      by (intro exI[of _ "[Http (GetTask tid), SetTimeout 5000] @ ys"]) simp
  next
    case (Inr t)
    with pend[rule_format, of k] have st: "status t = ''PENDING'' \<or> status t = ''RUNNING''"
      by (simp add: pendingD)
    let ?w = "setTimeout 5000 (observer_next (download_progress t) (http_send (GetTask tid) w))"
    have "\<not> closed ?w" using Suc.prems by (simp add: world_ops_closed)
    from Suc.hyps(1)[OF n k1 this] obtain ys where
      ys: "trace (pollTaskStatus tid srv res ft (k + 1) ?w)
             = trace ?w @ ys
                 @ [Deliver (OnError (Error ''Download timeout - task is taking too long'' None))]"
          "length (filter is_status_poll ys) = 120 - (k + 1)"
          "\<forall>a \<in> set ys. \<not> is_terminal a"
      by blast
    have step: "pollTaskStatus tid srv res ft k w = pollTaskStatus tid srv res ft (k + 1) ?w"
      by (rule download_on_pending[where srv=srv and k=k and t=t, OF k Inr st])
    have tr: "trace ?w
                = trace w @ [Http (GetTask tid), Deliver (OnNext (download_progress t)), SetTimeout 5000]"
      using Suc.prems by (simp add: world_ops_trace world_ops_closed)
    show ?thesis
      unfolding step ys(1) tr using ys(2,3) k
      by (intro exI[of _ "[Http (GetTask tid), Deliver (OnNext (download_progress t)),
                           SetTimeout 5000] @ ys"]) simp
  qed
qed

text \<open>
  C1. When no answer of the task endpoint ends the polling (every status request fails or
  finds the task PENDING or RUNNING), the upload loop started at poll count 0 on an open
  subscriber sends exactly 240 status requests, delivers no error and no completion
  meanwhile, and its last action is the delivery of the timeout error: no request and no
  timer follows it. The download loop does the same with 120 status requests.
\<close>

theorem poll_ceiling_timeout:
  assumes "\<forall>i. pending_response (srv i)" and "\<not> closed w"
  shows "(\<exists>ys. trace (pollUploadTaskStatus tid srv ft 0 w)
                 = trace w @ ys
                   @ [Deliver (OnError (Error ''Upload timeout - task is taking too long'' None))]
             \<and> length (filter is_status_poll ys) = 240
             \<and> (\<forall>a \<in> set ys. \<not> is_terminal a))
       \<and> (\<exists>ys. trace (pollTaskStatus tid srv res ft 0 w)
                 = trace w @ ys
                   @ [Deliver (OnError (Error ''Download timeout - task is taking too long'' None))]
             \<and> length (filter is_status_poll ys) = 120
             \<and> (\<forall>a \<in> set ys. \<not> is_terminal a))"
  using upload_pending_run[OF assms(1), of 0 w tid ft]
        download_pending_run[OF assms(1), of 0 w tid res ft] assms(2)
  by simp

theorem poll_ceiling_timeout_witness:
  "(\<forall>i. pending_response (always (sample_task ''RUNNING'' (Some 10)) i))
   \<and> \<not> closed subscribed
   \<and> (\<exists>ys. trace (pollUploadTaskStatus 7 (always (sample_task ''RUNNING'' (Some 10)))
                     ''styles'' 0 subscribed)
              = ys @ [Deliver (OnError (Error ''Upload timeout - task is taking too long'' None))]
          \<and> length (filter is_status_poll ys) = 240)
   \<and> (\<exists>ys. trace (pollTaskStatus 7 (always (sample_task ''RUNNING'' (Some 10)))
                     (Inr ''data'') ''styles'' 0 subscribed)
              = ys @ [Deliver (OnError (Error ''Download timeout - task is taking too long'' None))]
          \<and> length (filter is_status_poll ys) = 120)"
proof -
  have p: "\<forall>i. pending_response (always (sample_task ''RUNNING'' (Some 10)) i)"
    by (simp add: pending_response_def always_def sample_task_def)
  have c: "\<not> closed subscribed" by (simp add: subscribed_def)
  have t: "trace subscribed = []" by (simp add: subscribed_def)
  from poll_ceiling_timeout[OF p c, of 7 "''styles''" "Inr ''data''"] p c
  show ?thesis unfolding t by auto
qed

section \<open>Failed status requests\<close>

lemma upload_error_run:
  assumes err: "\<forall>i. \<exists>e. srv i = Inl e"
  shows "k \<le> 240 \<Longrightarrow> \<not> closed w \<Longrightarrow>
         trace (pollUploadTaskStatus tid srv ft k w)
           = trace w @ concat (replicate (240 - k) [Http (GetTask tid), SetTimeout 2000])
             @ [Deliver (OnError (Error ''Upload timeout - task is taking too long'' None))]"
proof (induction "240 - k" arbitrary: k w)
  case 0
  then have "240 \<le> k" by simp
  with 0 show ?case by (simp add: upload_at_ceiling world_ops_trace)
next
  case (Suc n)
  then have k: "k < 240" and n: "n = 240 - (k + 1)" and k1: "k + 1 \<le> 240" by simp_all
  from err obtain e where e: "srv k = Inl e" by blast
  let ?w = "setTimeout 2000 (http_send (GetTask tid) w)"
  have "\<not> closed ?w" using Suc.prems by (simp add: world_ops_closed)
  note ih = Suc.hyps(1)[OF n k1 this]
  have step: "pollUploadTaskStatus tid srv ft k w = pollUploadTaskStatus tid srv ft (k + 1) ?w"
    by (rule upload_on_request_error[where srv=srv and k=k and e=e, OF k e])
  have r: "240 - k = Suc (240 - (k + 1))" using k by simp
  show ?case unfolding step ih r by (simp add: world_ops_trace)
qed

lemma download_error_run:
  assumes err: "\<forall>i. \<exists>e. srv i = Inl e"
  shows "k \<le> 120 \<Longrightarrow> \<not> closed w \<Longrightarrow>
         trace (pollTaskStatus tid srv res ft k w)
           = trace w @ concat (replicate (120 - k) [Http (GetTask tid), SetTimeout 5000])
             @ [Deliver (OnError (Error ''Download timeout - task is taking too long'' None))]"
proof (induction "120 - k" arbitrary: k w)
  case 0
  then have "120 \<le> k" by simp
  with 0 show ?case by (simp add: download_at_ceiling world_ops_trace)
next
  case (Suc n)
  then have k: "k < 120" and n: "n = 120 - (k + 1)" and k1: "k + 1 \<le> 120" by simp_all
  from err obtain e where e: "srv k = Inl e" by blast
  let ?w = "setTimeout 5000 (http_send (GetTask tid) w)"
  have "\<not> closed ?w" using Suc.prems by (simp add: world_ops_closed)
  note ih = Suc.hyps(1)[OF n k1 this]
  have step: "pollTaskStatus tid srv res ft k w = pollTaskStatus tid srv res ft (k + 1) ?w"
    by (rule download_on_request_error[where srv=srv and k=k and e=e, OF k e])
  have r: "120 - k = Suc (120 - (k + 1))" using k by simp
  show ?case unfolding step ih r by (simp add: world_ops_trace)
qed

text \<open>
  C7. A status request that fails below the ceiling delivers nothing to the subscriber and
  leaves it open or closed as it was: the invocation only sends the request and sets a
  timer, after which the loop runs with the next poll count. The timer is the one a poll
  that finds the task PENDING or RUNNING sets: 2000 ms in the upload loop, 5000 ms in the
  download loop. When every status request fails, the retries go on up to the ceiling: the
  upload loop sends 240 requests, each followed by its timer, and then delivers the timeout
  error; the download loop does so with 120 requests.
\<close>

theorem request_error_retries:
  "(k < 240 \<and> srv k = Inl e \<longrightarrow>
      pollUploadTaskStatus tid srv ft k w
        = pollUploadTaskStatus tid srv ft (k + 1)
            (w\<lparr>trace := trace w @ [Http (GetTask tid), SetTimeout 2000]\<rparr>))
   \<and> (k < 240 \<and> srv k = Inr t \<and> (status t = ''PENDING'' \<or> status t = ''RUNNING'') \<longrightarrow>
      pollUploadTaskStatus tid srv ft k w
        = pollUploadTaskStatus tid srv ft (k + 1)
            (setTimeout 2000 (observer_next (upload_progress t) (http_send (GetTask tid) w))))
   \<and> (k < 120 \<and> srv k = Inl e \<longrightarrow>
      pollTaskStatus tid srv res ft k w
        = pollTaskStatus tid srv res ft (k + 1)
            (w\<lparr>trace := trace w @ [Http (GetTask tid), SetTimeout 5000]\<rparr>))
   \<and> (k < 120 \<and> srv k = Inr t \<and> (status t = ''PENDING'' \<or> status t = ''RUNNING'') \<longrightarrow>
      pollTaskStatus tid srv res ft k w
        = pollTaskStatus tid srv res ft (k + 1)
            (setTimeout 5000 (observer_next (download_progress t) (http_send (GetTask tid) w))))
   \<and> ((\<forall>i. \<exists>e. srv i = Inl e) \<and> \<not> closed w \<longrightarrow>
      trace (pollUploadTaskStatus tid srv ft 0 w)
        = trace w @ concat (replicate 240 [Http (GetTask tid), SetTimeout 2000])
          @ [Deliver (OnError (Error ''Upload timeout - task is taking too long'' None))]
      \<and> trace (pollTaskStatus tid srv res ft 0 w)
        = trace w @ concat (replicate 120 [Http (GetTask tid), SetTimeout 5000])
          @ [Deliver (OnError (Error ''Download timeout - task is taking too long'' None))])"
proof -
  have w2: "setTimeout ms (http_send r w) = w\<lparr>trace := trace w @ [Http r, SetTimeout ms]\<rparr>"
    for ms r by (simp add: setTimeout_def http_send_def)
  have a: "k < 240 \<and> srv k = Inl e \<longrightarrow>
      pollUploadTaskStatus tid srv ft k w
        = pollUploadTaskStatus tid srv ft (k + 1)
            (w\<lparr>trace := trace w @ [Http (GetTask tid), SetTimeout 2000]\<rparr>)"
    using upload_on_request_error[where srv=srv and k=k and e=e and tid=tid and ft=ft and w=w]
    by (simp add: w2)
  have b: "k < 240 \<and> srv k = Inr t \<and> (status t = ''PENDING'' \<or> status t = ''RUNNING'') \<longrightarrow>
      pollUploadTaskStatus tid srv ft k w
        = pollUploadTaskStatus tid srv ft (k + 1)
            (setTimeout 2000 (observer_next (upload_progress t) (http_send (GetTask tid) w)))"
    using upload_on_pending[where srv=srv and k=k and t=t and tid=tid and ft=ft and w=w]
    by blast
  have c: "k < 120 \<and> srv k = Inl e \<longrightarrow>
      pollTaskStatus tid srv res ft k w
        = pollTaskStatus tid srv res ft (k + 1)
            (w\<lparr>trace := trace w @ [Http (GetTask tid), SetTimeout 5000]\<rparr>)"
    using download_on_request_error[where srv=srv and k=k and e=e and tid=tid and ft=ft
        and w=w and res=res]
    by (simp add: w2)
  have d: "k < 120 \<and> srv k = Inr t \<and> (status t = ''PENDING'' \<or> status t = ''RUNNING'') \<longrightarrow>
      pollTaskStatus tid srv res ft k w
        = pollTaskStatus tid srv res ft (k + 1)
            (setTimeout 5000 (observer_next (download_progress t) (http_send (GetTask tid) w)))"
    using download_on_pending[where srv=srv and k=k and t=t and tid=tid and ft=ft and w=w
        and res=res]
    by blast
  have e: "(\<forall>i. \<exists>e. srv i = Inl e) \<and> \<not> closed w \<longrightarrow>
      trace (pollUploadTaskStatus tid srv ft 0 w)
        = trace w @ concat (replicate 240 [Http (GetTask tid), SetTimeout 2000])
          @ [Deliver (OnError (Error ''Upload timeout - task is taking too long'' None))]
      \<and> trace (pollTaskStatus tid srv res ft 0 w)
        = trace w @ concat (replicate 120 [Http (GetTask tid), SetTimeout 5000])
          @ [Deliver (OnError (Error ''Download timeout - task is taking too long'' None))]"
    using upload_error_run[where srv=srv and k=0 and w=w and tid=tid and ft=ft]
          download_error_run[where srv=srv and k=0 and w=w and tid=tid and ft=ft and res=res]
    by simp
  from a b c d e show ?thesis by blast
qed

theorem request_error_retries_witness:
  "(0::nat) < 240 \<and> (0::nat) < 120
   \<and> always_unavailable 0 = Inl unavailable
   \<and> (\<forall>i. \<exists>e. always_unavailable i = Inl e)
   \<and> \<not> closed subscribed
   \<and> pollUploadTaskStatus 7 always_unavailable ''styles'' 0 subscribed
      = pollUploadTaskStatus 7 always_unavailable ''styles'' (0 + 1)
          (subscribed\<lparr>trace := trace subscribed @ [Http (GetTask 7), SetTimeout 2000]\<rparr>)
   \<and> pollTaskStatus 7 always_unavailable (Inr ''data'') ''styles'' 0 subscribed
      = pollTaskStatus 7 always_unavailable (Inr ''data'') ''styles'' (0 + 1)
          (subscribed\<lparr>trace := trace subscribed @ [Http (GetTask 7), SetTimeout 5000]\<rparr>)
   \<and> trace (pollUploadTaskStatus 7 always_unavailable ''styles'' 0 subscribed)
      = trace subscribed @ concat (replicate 240 [Http (GetTask 7), SetTimeout 2000])
        @ [Deliver (OnError (Error ''Upload timeout - task is taking too long'' None))]
   \<and> trace (pollTaskStatus 7 always_unavailable (Inr ''data'') ''styles'' 0 subscribed)
      = trace subscribed @ concat (replicate 120 [Http (GetTask 7), SetTimeout 5000])
        @ [Deliver (OnError (Error ''Download timeout - task is taking too long'' None))]"
proof -
  have c: "\<not> closed subscribed" by (simp add: subscribed_def)
  have h: "(0::nat) < 240" "(0::nat) < 120" "always_unavailable 0 = Inl unavailable"
    "\<forall>i. \<exists>e. always_unavailable i = Inl e"
    by (simp_all add: always_unavailable_def)
  from request_error_retries[where k=0 and srv=always_unavailable and e=unavailable
      and w=subscribed and tid=7 and ft="''styles''" and res="Inr ''data''"] c h
  show ?thesis by blast
qed

section \<open>What a poll does with the status it finds\<close>

lemma world_eq:
  "w\<lparr>closed := c, trace := tr\<rparr> = \<lparr>closed = c, trace = tr\<rparr>"
  "(w\<lparr>trace := tr\<rparr>)\<lparr>closed := c\<rparr> = \<lparr>closed = c, trace = tr\<rparr>"
  by simp_all

lemma upload_dispatch:
  assumes k: "k < 240" and r: "srv k = Inr t" and o: "\<not> closed w"
  shows "status t = ''COMPLETED'' \<Longrightarrow>
           pollUploadTaskStatus tid srv ft k w
             = \<lparr>closed = True,
                trace = trace w @ [Http (GetTask tid),
                  Deliver (OnNext \<lparr>progress = 100, ev_task = Some t, completed = Some True,
                                   ev_blob = None, filename = None\<rparr>),
                  Deliver OnComplete]\<rparr>"
    and "status t = ''FAILED'' \<Longrightarrow>
           pollUploadTaskStatus tid srv ft k w
             = \<lparr>closed = True,
                trace = trace w @ [Http (GetTask tid),
                  Deliver (OnError (Error (str_or (errorMessage t) ''Upload failed'') (Some t)))]\<rparr>"
    and "status t = ''CANCELLED'' \<Longrightarrow>
           pollUploadTaskStatus tid srv ft k w
             = \<lparr>closed = True,
                trace = trace w @ [Http (GetTask tid),
                  Deliver (OnError (Error ''Upload was cancelled'' None))]\<rparr>"
    and "status t = ''PENDING'' \<or> status t = ''RUNNING'' \<Longrightarrow>
           pollUploadTaskStatus tid srv ft k w
             = pollUploadTaskStatus tid srv ft (k + 1)
                 (w\<lparr>trace := trace w @ [Http (GetTask tid), Deliver (OnNext (upload_progress t)),
                                        SetTimeout 2000]\<rparr>)"
    and "status t \<notin> {''COMPLETED'', ''FAILED'', ''CANCELLED'', ''PENDING'', ''RUNNING''} \<Longrightarrow>
           pollUploadTaskStatus tid srv ft k w
             = \<lparr>closed = True,
                trace = trace w @ [Http (GetTask tid),
                  Deliver (OnError (Error (''Unknown task status: '' @ status t) None))]\<rparr>"
proof -
  note u = upload_on_task[where srv=srv and k=k and t=t and tid=tid and ft=ft and w=w, OF k r]
  note d = Let_def http_send_def observer_next_def observer_complete_def observer_error_def
    setTimeout_def
  show "status t = ''COMPLETED'' \<Longrightarrow>
           pollUploadTaskStatus tid srv ft k w
             = \<lparr>closed = True,
                trace = trace w @ [Http (GetTask tid),
                  Deliver (OnNext \<lparr>progress = 100, ev_task = Some t, completed = Some True,
                                   ev_blob = None, filename = None\<rparr>),
                  Deliver OnComplete]\<rparr>"
    using o by (simp add: u d)
  show "status t = ''FAILED'' \<Longrightarrow>
           pollUploadTaskStatus tid srv ft k w
             = \<lparr>closed = True,
                trace = trace w @ [Http (GetTask tid),
                  Deliver (OnError (Error (str_or (errorMessage t) ''Upload failed'') (Some t)))]\<rparr>"
    using o by (simp add: u d)
  show "status t = ''CANCELLED'' \<Longrightarrow>
           pollUploadTaskStatus tid srv ft k w
             = \<lparr>closed = True,
                trace = trace w @ [Http (GetTask tid),
                  Deliver (OnError (Error ''Upload was cancelled'' None))]\<rparr>"
    using o by (simp add: u d)
  show "status t = ''PENDING'' \<or> status t = ''RUNNING'' \<Longrightarrow>
           pollUploadTaskStatus tid srv ft k w
             = pollUploadTaskStatus tid srv ft (k + 1)
                 (w\<lparr>trace := trace w @ [Http (GetTask tid), Deliver (OnNext (upload_progress t)),
                                        SetTimeout 2000]\<rparr>)"
    using o upload_on_pending[where srv=srv and k=k and t=t and tid=tid and ft=ft and w=w, OF k r]
    by (simp add: d)
  show "status t \<notin> {''COMPLETED'', ''FAILED'', ''CANCELLED'', ''PENDING'', ''RUNNING''} \<Longrightarrow>
           pollUploadTaskStatus tid srv ft k w
             = \<lparr>closed = True,
                trace = trace w @ [Http (GetTask tid),
                  Deliver (OnError (Error (''Unknown task status: '' @ status t) None))]\<rparr>"
    using o by (simp add: u d)
qed


lemma upload_three_running_then_completed:
  assumes "srv 0 = Inr r0" "srv 1 = Inr r1" "srv 2 = Inr r2" "srv 3 = Inr c"
    and "status r0 = ''RUNNING''" "status r1 = ''RUNNING''" "status r2 = ''RUNNING''"
    and "status c = ''COMPLETED''" and "\<not> closed w"
  shows "pollUploadTaskStatus tid srv ft 0 w
           = \<lparr>closed = True,
              trace = trace w @
                [Http (GetTask tid), Deliver (OnNext (upload_progress r0)), SetTimeout 2000,
                 Http (GetTask tid), Deliver (OnNext (upload_progress r1)), SetTimeout 2000,
                 Http (GetTask tid), Deliver (OnNext (upload_progress r2)), SetTimeout 2000,
                 Http (GetTask tid),
                 Deliver (OnNext \<lparr>progress = 100, ev_task = Some c, completed = Some True,
                                  ev_blob = None, filename = None\<rparr>),
                 Deliver OnComplete]\<rparr>"
proof -
  let ?w1 = "w\<lparr>trace := trace w @ [Http (GetTask tid), Deliver (OnNext (upload_progress r0)),
                                     SetTimeout 2000]\<rparr>"
  let ?w2 = "?w1\<lparr>trace := trace ?w1 @ [Http (GetTask tid), Deliver (OnNext (upload_progress r1)),
                                     SetTimeout 2000]\<rparr>"
  let ?w3 = "?w2\<lparr>trace := trace ?w2 @ [Http (GetTask tid), Deliver (OnNext (upload_progress r2)),
                                     SetTimeout 2000]\<rparr>"
  have o: "\<not> closed ?w1" "\<not> closed ?w2" "\<not> closed ?w3" using assms(9) by simp_all
  have "pollUploadTaskStatus tid srv ft 0 w = pollUploadTaskStatus tid srv ft 1 ?w1"
    using upload_dispatch(4)[where srv=srv and k=0 and t=r0 and w=w and tid=tid and ft=ft]
      assms(1,5,9) by (simp add: numeral_2_eq_2 numeral_3_eq_3)
  also have "\<dots> = pollUploadTaskStatus tid srv ft 2 ?w2"
    using upload_dispatch(4)[where srv=srv and k=1 and t=r1 and w="?w1" and tid=tid and ft=ft]
      assms(2,6) o(1) by (simp add: numeral_2_eq_2 numeral_3_eq_3)
  also have "\<dots> = pollUploadTaskStatus tid srv ft 3 ?w3"
    using upload_dispatch(4)[where srv=srv and k=2 and t=r2 and w="?w2" and tid=tid and ft=ft]
      assms(3,7) o(2) by (simp add: numeral_2_eq_2 numeral_3_eq_3)
  also have "\<dots> = \<lparr>closed = True,
              trace = trace ?w3 @
                [Http (GetTask tid),
                 Deliver (OnNext \<lparr>progress = 100, ev_task = Some c, completed = Some True,
                                  ev_blob = None, filename = None\<rparr>),
                 Deliver OnComplete]\<rparr>"
    using upload_dispatch(1)[where srv=srv and k=3 and t=c and w="?w3" and tid=tid and ft=ft]
      assms(4,8) o(3) by (simp add: numeral_2_eq_2 numeral_3_eq_3)
  finally show ?thesis by simp
qed



lemma sample_facts:
  "three_running_then_completed 0 = Inr (sample_task ''RUNNING'' (Some 25))"
  "three_running_then_completed 1 = Inr (sample_task ''RUNNING'' (Some 25))"
  "three_running_then_completed 2 = Inr (sample_task ''RUNNING'' (Some 25))"
  "three_running_then_completed 3 = Inr (sample_task ''COMPLETED'' (Some 100))"
  "status (sample_task st p) = st"
  "progressPercentage (sample_task st p) = p"
  "status failed_task = ''FAILED''"
  "errorMessage failed_task = Some ''bad header''"
  "\<not> closed subscribed"
  "trace subscribed = []"
  by (simp_all add: three_running_then_completed_def sample_task_def failed_task_def
        subscribed_def)



section \<open>Progress values\<close>

lemma event_in_range_append:
  "list_all event_in_range (xs @ ys) = (list_all event_in_range xs \<and> list_all event_in_range ys)"
  by simp





lemma uploadFileAsync_cases:
  "uploadFileAsync ft None started srv w
     = observer_error (Error ''No file provided for upload'' None) w"
  "uploadFileAsync ft (Some f) (Inl e) srv w
     = observer_error (handleError e) (http_send (PostUploadAsync ft) w)"
  "uploadFileAsync ft (Some f) (Inr t) srv w
     = (if status t = ''FAILED'' then
          observer_error (Error (str_or (errorMessage t) ''Upload failed'') None)
            (http_send (PostUploadAsync ft) w)
        else pollUploadTaskStatus (task_id t) srv ft 0 (http_send (PostUploadAsync ft) w))"
  by (simp_all add: uploadFileAsync_def startUploadTask_def catchError_def)














section \<open>Unsubscribing\<close>

lemma effects_ops:
  "effects (trace (http_send r w)) = effects (trace w) @ [Http r]"
  "effects (trace (setTimeout ms w)) = effects (trace w) @ [SetTimeout ms]"
  "effects (trace (observer_next ev w)) = effects (trace w)"
  "effects (trace (observer_error e w)) = effects (trace w)"
  "effects (trace (observer_complete w)) = effects (trace w)"
  "effects (trace (unsubscribe w)) = effects (trace w)"
  by (simp_all add: effects_def world_ops_trace)

lemma deliveries_ops_closed:
  "deliveries (trace (http_send r w)) = deliveries (trace w)"
  "deliveries (trace (setTimeout ms w)) = deliveries (trace w)"
  "closed w \<Longrightarrow> observer_next ev w = w"
  "closed w \<Longrightarrow> observer_error e w = w"
  "closed w \<Longrightarrow> observer_complete w = w"
  by (simp_all add: deliveries_def world_ops_trace observer_next_def observer_error_def
        observer_complete_def)

lemma upload_effects_cong:
  "effects (trace w) = effects (trace w') \<Longrightarrow>
   effects (trace (pollUploadTaskStatus tid srv ft k w))
     = effects (trace (pollUploadTaskStatus tid srv ft k w'))"
proof (induction "240 - k" arbitrary: k w w')
  case 0
  then have "240 \<le> k" by simp
  with 0 show ?case by (simp add: upload_at_ceiling effects_ops)
next
  case (Suc n)
  then have k: "k < 240" and n: "n = 240 - (k + 1)" by simp_all
  note eq = Suc.prems
  show ?case
  proof (cases "srv k")
    case (Inl e)
    have "effects (trace (setTimeout 2000 (http_send (GetTask tid) w)))
            = effects (trace (setTimeout 2000 (http_send (GetTask tid) w')))"
      using eq by (simp add: effects_ops)
    from Suc.hyps(1)[OF n this] show ?thesis
      by (simp add: upload_on_request_error[where srv=srv and k=k and e=e, OF k Inl])
  next
    case (Inr t)
    have "effects (trace (setTimeout 2000
              (observer_next (upload_progress t) (http_send (GetTask tid) w))))
            = effects (trace (setTimeout 2000
              (observer_next (upload_progress t) (http_send (GetTask tid) w'))))"
      using eq by (simp add: effects_ops)
    from Suc.hyps(1)[OF n this] show ?thesis
      using eq
      by (simp add: upload_on_task[where srv=srv and k=k and t=t, OF k Inr] Let_def effects_ops)
  qed
qed

lemma download_effects_cong:
  "effects (trace w) = effects (trace w') \<Longrightarrow>
   effects (trace (pollTaskStatus tid srv res ft k w))
     = effects (trace (pollTaskStatus tid srv res ft k w'))"
proof (induction "120 - k" arbitrary: k w w')
  case 0
  then have "120 \<le> k" by simp
  with 0 show ?case by (simp add: download_at_ceiling effects_ops)
next
  case (Suc n)
  then have k: "k < 120" and n: "n = 120 - (k + 1)" by simp_all
  note eq = Suc.prems
  show ?case
  proof (cases "srv k")
    case (Inl e)
    have "effects (trace (setTimeout 5000 (http_send (GetTask tid) w)))
            = effects (trace (setTimeout 5000 (http_send (GetTask tid) w')))"
      using eq by (simp add: effects_ops)
    from Suc.hyps(1)[OF n this] show ?thesis
      by (simp add: download_on_request_error[where srv=srv and k=k and e=e, OF k Inl])
  next
    case (Inr t)
    have "effects (trace (setTimeout 5000
              (observer_next (download_progress t) (http_send (GetTask tid) w))))
            = effects (trace (setTimeout 5000
              (observer_next (download_progress t) (http_send (GetTask tid) w'))))"
      using eq by (simp add: effects_ops)
    from Suc.hyps(1)[OF n this] show ?thesis
      using eq
      by (simp add: download_on_task[where srv=srv and k=k and t=t, OF k Inr] Let_def effects_ops
            split: sum.split)
  qed
qed

lemma upload_closed_run:
  "closed w \<Longrightarrow>
   closed (pollUploadTaskStatus tid srv ft k w)
   \<and> deliveries (trace (pollUploadTaskStatus tid srv ft k w)) = deliveries (trace w)"
proof (induction "240 - k" arbitrary: k w)
  case 0
  then have "240 \<le> k" by simp
  with 0 show ?case by (simp add: upload_at_ceiling deliveries_ops_closed)
next
  case (Suc n)
  then have k: "k < 240" and n: "n = 240 - (k + 1)" by simp_all
  note c = Suc.prems
  show ?case
  proof (cases "srv k")
    case (Inl e)
    have "closed (setTimeout 2000 (http_send (GetTask tid) w))"
      using c by (simp add: world_ops_closed)
    from Suc.hyps(1)[OF n this] show ?thesis
      by (simp add: upload_on_request_error[where srv=srv and k=k and e=e, OF k Inl]
            deliveries_ops_closed)
  next
    case (Inr t)
    have c1: "closed (http_send (GetTask tid) w)" using c by (simp add: world_ops_closed)
    have "closed (setTimeout 2000 (http_send (GetTask tid) w))"
      using c by (simp add: world_ops_closed)
    from Suc.hyps(1)[OF n this] show ?thesis
      using c c1
      by (simp add: upload_on_task[where srv=srv and k=k and t=t, OF k Inr] Let_def
            deliveries_ops_closed)
  qed
qed

lemma download_closed_run:
  "closed w \<Longrightarrow>
   closed (pollTaskStatus tid srv res ft k w)
   \<and> deliveries (trace (pollTaskStatus tid srv res ft k w)) = deliveries (trace w)"
proof (induction "120 - k" arbitrary: k w)
  case 0
  then have "120 \<le> k" by simp
  with 0 show ?case by (simp add: download_at_ceiling deliveries_ops_closed)
next
  case (Suc n)
  then have k: "k < 120" and n: "n = 120 - (k + 1)" by simp_all
  note c = Suc.prems
  show ?case
  proof (cases "srv k")
    case (Inl e)
    have "closed (setTimeout 5000 (http_send (GetTask tid) w))"
      using c by (simp add: world_ops_closed)
    from Suc.hyps(1)[OF n this] show ?thesis
      by (simp add: download_on_request_error[where srv=srv and k=k and e=e, OF k Inl]
            deliveries_ops_closed)
  next
    case (Inr t)
    have c1: "closed (http_send (GetTask tid) w)"
      "closed (http_send (GetTaskResult tid) (http_send (GetTask tid) w))"
      using c by (simp_all add: world_ops_closed)
    have "closed (setTimeout 5000 (http_send (GetTask tid) w))"
      using c by (simp add: world_ops_closed)
    from Suc.hyps(1)[OF n this] show ?thesis
      using c c1
      by (simp add: download_on_task[where srv=srv and k=k and t=t, OF k Inr] Let_def
            deliveries_ops_closed split: sum.split)
  qed
qed

lemma upload_trace_extends:
  "\<exists>ys. trace (pollUploadTaskStatus tid srv ft k w) = trace w @ ys
       \<and> (\<forall>a \<in> set ys. a = Http (GetTask tid) \<or> a = SetTimeout 2000 \<or> is_delivery a)"
proof (induction "240 - k" arbitrary: k w)
  case 0
  then have "240 \<le> k" by simp
  then show ?case by (simp add: upload_at_ceiling world_ops_trace)
next
  case (Suc n)
  then have k: "k < 240" and n: "n = 240 - (k + 1)" by simp_all
  show ?case
  proof (cases "srv k")
    case (Inl e)
    let ?w = "setTimeout 2000 (http_send (GetTask tid) w)"
    from Suc.hyps(1)[OF n, of ?w] obtain ys where
      ys: "trace (pollUploadTaskStatus tid srv ft (k + 1) ?w) = trace ?w @ ys"
          "\<forall>a \<in> set ys. a = Http (GetTask tid) \<or> a = SetTimeout 2000 \<or> is_delivery a"
      by blast
    show ?thesis
      using ys
      by (intro exI[of _ "[Http (GetTask tid), SetTimeout 2000] @ ys"])
         (simp add: upload_on_request_error[where srv=srv and k=k and e=e, OF k Inl]
            world_ops_trace)
  next
    case (Inr t)
    let ?w = "setTimeout 2000 (observer_next (upload_progress t) (http_send (GetTask tid) w))"
    from Suc.hyps(1)[OF n, of ?w] obtain ys where
      ys: "trace (pollUploadTaskStatus tid srv ft (k + 1) ?w) = trace ?w @ ys"
          "\<forall>a \<in> set ys. a = Http (GetTask tid) \<or> a = SetTimeout 2000 \<or> is_delivery a"
      by blast
    have "\<exists>zs. trace ?w = trace w @ zs
            \<and> (\<forall>a \<in> set zs. a = Http (GetTask tid) \<or> a = SetTimeout 2000 \<or> is_delivery a)"
      by (simp add: world_ops_trace world_ops_closed)
    then obtain zs where
      zs: "trace ?w = trace w @ zs"
          "\<forall>a \<in> set zs. a = Http (GetTask tid) \<or> a = SetTimeout 2000 \<or> is_delivery a"
      by blast
    have rec: "\<exists>ys. trace (pollUploadTaskStatus tid srv ft (k + 1) ?w) = trace w @ ys
            \<and> (\<forall>a \<in> set ys. a = Http (GetTask tid) \<or> a = SetTimeout 2000 \<or> is_delivery a)"
      using ys zs by (intro exI[of _ "zs @ ys"]) auto
    show ?thesis
      using rec
      by (simp add: upload_on_task[where srv=srv and k=k and t=t, OF k Inr] Let_def
            world_ops_trace world_ops_closed)
  qed
qed

lemma download_trace_extends:
  "\<exists>ys. trace (pollTaskStatus tid srv res ft k w) = trace w @ ys
       \<and> (\<forall>a \<in> set ys. a = Http (GetTask tid) \<or> a = Http (GetTaskResult tid)
                         \<or> a = SetTimeout 5000 \<or> is_delivery a)"
proof (induction "120 - k" arbitrary: k w)
  case 0
  then have "120 \<le> k" by simp
  then show ?case by (simp add: download_at_ceiling world_ops_trace)
next
  case (Suc n)
  then have k: "k < 120" and n: "n = 120 - (k + 1)" by simp_all
  show ?case
  proof (cases "srv k")
    case (Inl e)
    let ?w = "setTimeout 5000 (http_send (GetTask tid) w)"
    from Suc.hyps(1)[OF n, of ?w] obtain ys where
      ys: "trace (pollTaskStatus tid srv res ft (k + 1) ?w) = trace ?w @ ys"
          "\<forall>a \<in> set ys. a = Http (GetTask tid) \<or> a = Http (GetTaskResult tid)
                         \<or> a = SetTimeout 5000 \<or> is_delivery a"
      by blast
    show ?thesis
      using ys
      by (intro exI[of _ "[Http (GetTask tid), SetTimeout 5000] @ ys"])
         (simp add: download_on_request_error[where srv=srv and k=k and e=e, OF k Inl]
            world_ops_trace)
  next
    case (Inr t)
    let ?w = "setTimeout 5000 (observer_next (download_progress t) (http_send (GetTask tid) w))"
    from Suc.hyps(1)[OF n, of ?w] obtain ys where
      ys: "trace (pollTaskStatus tid srv res ft (k + 1) ?w) = trace ?w @ ys"
          "\<forall>a \<in> set ys. a = Http (GetTask tid) \<or> a = Http (GetTaskResult tid)
                         \<or> a = SetTimeout 5000 \<or> is_delivery a"
      by blast
    have "\<exists>zs. trace ?w = trace w @ zs
            \<and> (\<forall>a \<in> set zs. a = Http (GetTask tid) \<or> a = Http (GetTaskResult tid)
                              \<or> a = SetTimeout 5000 \<or> is_delivery a)"
      by (simp add: world_ops_trace world_ops_closed)
    then obtain zs where
      zs: "trace ?w = trace w @ zs"
          "\<forall>a \<in> set zs. a = Http (GetTask tid) \<or> a = Http (GetTaskResult tid)
                         \<or> a = SetTimeout 5000 \<or> is_delivery a"
      by blast
    have rec: "\<exists>ys. trace (pollTaskStatus tid srv res ft (k + 1) ?w) = trace w @ ys
            \<and> (\<forall>a \<in> set ys. a = Http (GetTask tid) \<or> a = Http (GetTaskResult tid)
                              \<or> a = SetTimeout 5000 \<or> is_delivery a)"
      using ys zs by (intro exI[of _ "zs @ ys"]) auto
    show ?thesis
      using rec
      by (simp add: download_on_task[where srv=srv and k=k and t=t, OF k Inr] Let_def
            world_ops_trace world_ops_closed split: sum.split)
  qed
qed

text \<open>
  C6 (amended). Unsubscribing closes the subscriber and does nothing else: it sends no
  request, so it cancels neither a request in flight nor the task. From then on nothing is
  delivered to the subscriber; but the loop, upload or download, goes on as if it were
  still subscribed: it sends the same requests and sets the same timers until a terminal
  or unknown status or the ceiling ends it. Whatever a loop adds to the trace is a status
  request, the result request of the download, a timer or a delivery: never a
  task-cancellation call.
\<close>

theorem unsubscribe_keeps_polling:
  "trace (unsubscribe w) = trace w \<and> closed (unsubscribe w)
   \<and> effects (trace (pollUploadTaskStatus tid srv ft k (unsubscribe w)))
       = effects (trace (pollUploadTaskStatus tid srv ft k w))
   \<and> deliveries (trace (pollUploadTaskStatus tid srv ft k (unsubscribe w))) = deliveries (trace w)
   \<and> effects (trace (pollTaskStatus tid srv res ft k (unsubscribe w)))
       = effects (trace (pollTaskStatus tid srv res ft k w))
   \<and> deliveries (trace (pollTaskStatus tid srv res ft k (unsubscribe w))) = deliveries (trace w)
   \<and> (\<exists>ys. trace (pollUploadTaskStatus tid srv ft k w) = trace w @ ys
          \<and> (\<forall>a \<in> set ys. a = Http (GetTask tid) \<or> a = SetTimeout 2000 \<or> is_delivery a))
   \<and> (\<exists>ys. trace (pollTaskStatus tid srv res ft k w) = trace w @ ys
          \<and> (\<forall>a \<in> set ys. a = Http (GetTask tid) \<or> a = Http (GetTaskResult tid)
                            \<or> a = SetTimeout 5000 \<or> is_delivery a))"
proof -
  have c: "closed (unsubscribe w)" and t: "trace (unsubscribe w) = trace w"
    by (simp_all add: unsubscribe_def)
  have e: "effects (trace (unsubscribe w)) = effects (trace w)" by (simp add: t)
  show ?thesis
    using c t upload_effects_cong[OF e, of tid srv ft k] download_effects_cong[OF e, of tid srv res ft k]
      upload_closed_run[OF c, of tid srv ft k] download_closed_run[OF c, of tid srv res ft k]
      upload_trace_extends[of tid srv ft k w] download_trace_extends[of tid srv res ft k w]
    by simp
qed

theorem unsubscribe_keeps_polling_witness:
  "effects (trace (pollUploadTaskStatus 7 three_running_then_completed ''styles'' 1
                     (unsubscribe subscribed)))
     = effects (trace (pollUploadTaskStatus 7 three_running_then_completed ''styles'' 1 subscribed))
   \<and> deliveries (trace (pollUploadTaskStatus 7 three_running_then_completed ''styles'' 1
                          (unsubscribe subscribed))) = []
   \<and> effects (trace (pollTaskStatus 7 three_running_then_completed (Inr ''data'') ''styles'' 1
                        (unsubscribe subscribed)))
     = effects (trace (pollTaskStatus 7 three_running_then_completed (Inr ''data'') ''styles'' 1
                        subscribed))
   \<and> trace (unsubscribe subscribed) = [] \<and> closed (unsubscribe subscribed)"
  using unsubscribe_keeps_polling[of subscribed 7 three_running_then_completed "''styles''" 1
      "Inr ''data''"]
  by (simp add: sample_facts deliveries_def)

text \<open>
  C6 as stated fails. Take the endpoint that answers RUNNING three times and then
  COMPLETED. After the first poll the subscriber has one progress event and the timer is
  set; it unsubscribes. When the timer fires, the loop runs with poll count 1 on the closed
  subscriber and still sends three status requests.
\<close>

theorem polls_after_unsubscribe_counterexample:
  "trace (pollUploadTaskStatus 7 three_running_then_completed ''styles'' 1
            (unsubscribe
               \<lparr>closed = False,
                trace = [Http (GetTask 7),
                         Deliver (OnNext (upload_progress (sample_task ''RUNNING'' (Some 25)))),
                         SetTimeout 2000]\<rparr>))
     = [Http (GetTask 7),
        Deliver (OnNext (upload_progress (sample_task ''RUNNING'' (Some 25)))),
        SetTimeout 2000,
        Http (GetTask 7), SetTimeout 2000,
        Http (GetTask 7), SetTimeout 2000,
        Http (GetTask 7)]"
proof -
  let ?r = "sample_task ''RUNNING'' (Some 25)"
  let ?c = "sample_task ''COMPLETED'' (Some 100)"
  let ?w1 = "unsubscribe \<lparr>closed = False,
                trace = [Http (GetTask 7), Deliver (OnNext (upload_progress ?r)),
                         SetTimeout 2000]\<rparr>"
  let ?w2 = "setTimeout 2000 (observer_next (upload_progress ?r) (http_send (GetTask 7) ?w1))"
  let ?w3 = "setTimeout 2000 (observer_next (upload_progress ?r) (http_send (GetTask 7) ?w2))"
  have z: "(1::nat) < 240" "(2::nat) < 240" "(3::nat) < 240" by simp_all
  have st: "status ?r = ''PENDING'' \<or> status ?r = ''RUNNING''" by (simp add: sample_facts)
  have "pollUploadTaskStatus 7 three_running_then_completed ''styles'' 1 ?w1
          = pollUploadTaskStatus 7 three_running_then_completed ''styles'' (1 + 1) ?w2"
    by (rule upload_on_pending[where srv=three_running_then_completed and k=1 and t="?r",
          OF z(1) sample_facts(2) st])
  also have "\<dots> = pollUploadTaskStatus 7 three_running_then_completed ''styles'' 2 ?w2"
    by (simp add: numeral_2_eq_2)
  also have "\<dots> = pollUploadTaskStatus 7 three_running_then_completed ''styles'' (2 + 1) ?w3"
    by (rule upload_on_pending[where srv=three_running_then_completed and k=2 and t="?r",
          OF z(2) sample_facts(3) st])
  also have "\<dots> = pollUploadTaskStatus 7 three_running_then_completed ''styles'' 3 ?w3"
    by (simp add: numeral_2_eq_2 numeral_3_eq_3)
  also have "\<dots> = observer_complete
            (observer_next \<lparr>progress = 100, ev_task = Some ?c, completed = Some True,
                            ev_blob = None, filename = None\<rparr> (http_send (GetTask 7) ?w3))"
    using upload_on_task[where srv=three_running_then_completed and k=3 and t="?c"
        and tid=7 and ft="''styles''" and w="?w3", OF z(3) sample_facts(4)]
    by (simp add: sample_facts Let_def)
  finally show ?thesis
    by (simp add: world_ops_trace world_ops_closed)
qed

section \<open>The upload-files view state\<close>

lemma enabled_iff_prerequisites:
  "enabled (checkUploadDependencies ft s)
     = (\<forall>p \<in> set (prerequisites ft). \<exists>e. s p = Some e \<and> st_exists e)"
proof -
  have x: "exists_in s k = (\<exists>e. s k = Some e \<and> st_exists e)" for k
    by (simp add: exists_in_def split: option.split)
  show ?thesis
    unfolding x[symmetric]
    by (auto simp add: checkUploadDependencies_def prerequisites_def Let_def)
qed

lemma updateUploadFile_id [simp]:
  "uf_id (updateUploadFile s f) = uf_id f"
  by (simp add: updateUploadFile_def pendingUnlessError_def Let_def split: option.split)

lemma updateUploadFile_canUpload:
  "canUpload (updateUploadFile s f) = enabled (checkUploadDependencies (uf_id f) s)"
  by (simp add: updateUploadFile_def pendingUnlessError_def Let_def split: option.split)

lemma updateUploadFile_blocked:
  "(uf_status (updateUploadFile s f) = StBlocked)
     = (\<not> enabled (checkUploadDependencies (uf_id f) s))"
  by (simp add: updateUploadFile_def pendingUnlessError_def Let_def split: option.split)

text \<open>
  C8. After the view state has been refreshed from a snapshot, every file of it is blocked
  exactly when one of the prerequisites of its file type has no entry with \<^verbatim>\<open>exists\<close>
  true in the snapshot, whatever its state was before; files of type styles or stores are
  never blocked; and the flag \<^verbatim>\<open>canUpload\<close> of every file is the result of the dependency
  checker, which is true exactly when every prerequisite has such an entry. The refresh
  keeps the files and their order.
\<close>

theorem blocked_iff_prerequisite_missing:
  "map uf_id (updateUploadFilesStatus s files) = map uf_id files
   \<and> (\<forall>f \<in> set (updateUploadFilesStatus s files).
        (uf_status f = StBlocked)
          = (\<exists>p \<in> set (prerequisites (uf_id f)). \<not> (\<exists>e. s p = Some e \<and> st_exists e))
        \<and> (uf_id f = ''styles'' \<or> uf_id f = ''stores'' \<longrightarrow> uf_status f \<noteq> StBlocked)
        \<and> canUpload f = enabled (checkUploadDependencies (uf_id f) s)
        \<and> canUpload f
          = (\<forall>p \<in> set (prerequisites (uf_id f)). \<exists>e. s p = Some e \<and> st_exists e))"
proof (intro conjI ballI)
  show "map uf_id (updateUploadFilesStatus s files) = map uf_id files"
    by (simp add: updateUploadFilesStatus_def)
next
  fix f assume "f \<in> set (updateUploadFilesStatus s files)"
  then obtain g where g: "f = updateUploadFile s g"
    by (auto simp add: updateUploadFilesStatus_def)
  show "(uf_status f = StBlocked)
          = (\<exists>p \<in> set (prerequisites (uf_id f)). \<not> (\<exists>e. s p = Some e \<and> st_exists e))"
    unfolding g by (simp add: updateUploadFile_blocked enabled_iff_prerequisites)
  show "uf_id f = ''styles'' \<or> uf_id f = ''stores'' \<longrightarrow> uf_status f \<noteq> StBlocked"
    unfolding g
    by (auto simp add: updateUploadFile_blocked enabled_iff_prerequisites prerequisites_def)
  show "canUpload f = enabled (checkUploadDependencies (uf_id f) s)"
    unfolding g by (simp add: updateUploadFile_canUpload)
  show "canUpload f
          = (\<forall>p \<in> set (prerequisites (uf_id f)). \<exists>e. s p = Some e \<and> st_exists e)"
    unfolding g by (simp add: updateUploadFile_canUpload enabled_iff_prerequisites)
qed

theorem blocked_iff_prerequisite_missing_witness:
  "map uf_id (updateUploadFilesStatus fallbackStatus initialUploadFiles)
     = [''styles'', ''stores'', ''skus'', ''sales'']
   \<and> map uf_status (updateUploadFilesStatus fallbackStatus initialUploadFiles)
     = [StPending, StPending, StBlocked, StBlocked]
   \<and> map canUpload (updateUploadFilesStatus fallbackStatus initialUploadFiles)
     = [True, True, False, False]
   \<and> map uf_status (updateUploadFilesStatus only_styles initialUploadFiles)
     = [StSuccess, StPending, StPending, StBlocked]
   \<and> map canUpload (updateUploadFilesStatus only_styles initialUploadFiles)
     = [True, True, True, False]
   \<and> map uf_status (updateUploadFilesStatus styles_and_stores initialUploadFiles)
     = [StSuccess, StSuccess, StPending, StBlocked]
   \<and> map uf_status (updateUploadFilesStatus all_loaded initialUploadFiles)
     = [StSuccess, StSuccess, StSuccess, StSuccess]
   \<and> map canUpload (updateUploadFilesStatus all_loaded initialUploadFiles)
     = [True, True, True, True]
   \<and> map st_exists (map (the \<circ> fallbackStatus) [''styles'', ''skus'', ''stores''])
     = [False, False, False]
   \<and> map st_exists (map (the \<circ> only_styles) [''styles'', ''skus'', ''stores''])
     = [True, False, False]"
proof -
  note defs = updateUploadFilesStatus_def initialUploadFiles_def newUploadFile_def
    updateUploadFile_def pendingUnlessError_def fallbackStatus_def only_styles_def
    styles_and_stores_def all_loaded_def loaded_def empty_entry_def truthy_def
    checkUploadDependencies_def exists_in_def Let_def
  have i: "map uf_id initialUploadFiles = [''styles'', ''stores'', ''skus'', ''sales'']"
    by (simp add: initialUploadFiles_def newUploadFile_def)
  have a: "map uf_status (updateUploadFilesStatus fallbackStatus initialUploadFiles)
     = [StPending, StPending, StBlocked, StBlocked]"
    "map uf_status (updateUploadFilesStatus only_styles initialUploadFiles)
     = [StSuccess, StPending, StPending, StBlocked]"
    "map uf_status (updateUploadFilesStatus styles_and_stores initialUploadFiles)
     = [StSuccess, StSuccess, StPending, StBlocked]"
    "map uf_status (updateUploadFilesStatus all_loaded initialUploadFiles)
     = [StSuccess, StSuccess, StSuccess, StSuccess]"
    by (simp_all add: defs)
  have b: "map canUpload (updateUploadFilesStatus fallbackStatus initialUploadFiles)
     = [True, True, False, False]"
    "map canUpload (updateUploadFilesStatus only_styles initialUploadFiles)
     = [True, True, True, False]"
    "map canUpload (updateUploadFilesStatus all_loaded initialUploadFiles)
     = [True, True, True, True]"
    by (simp_all add: defs)
  have e: "map st_exists (map (the \<circ> fallbackStatus) [''styles'', ''skus'', ''stores''])
     = [False, False, False]"
    "map st_exists (map (the \<circ> only_styles) [''styles'', ''skus'', ''stores''])
     = [True, False, False]"
    by (simp_all add: fallbackStatus_def only_styles_def loaded_def empty_entry_def)
  from a b e i blocked_iff_prerequisite_missing[of fallbackStatus initialUploadFiles]
  show ?thesis by simp
qed

section \<open>The theme store and the system preference\<close>



section \<open>Upload validation\<close>

lemma utf16_extensions:
  "utf16 ''.tsv'' = [46, 116, 115, 118]"
  "utf16 ''.txt'' = [46, 116, 120, 116]"
  "(of_char CHR ''.'' :: nat) = 46"
  by (simp_all add: utf16_def)

lemma ascii_lower_dot:
  "(ascii_lower u = 46) = (u = 46)"
  by (auto simp add: ascii_lower_def)

lemma dot_in_lowered:
  "(46 \<in> set (map ascii_lower s)) = (46 \<in> set s)"
proof -
  have "(46 \<in> set (map ascii_lower s)) = (\<exists>x \<in> set s. ascii_lower x = 46)"
    by (metis (no_types) imageE image_eqI set_map)
  then show ?thesis by (simp add: ascii_lower_dot)
qed

lemma lastIndexOf_lowered:
  "lastIndexOf (map ascii_lower s) 46 = lastIndexOf s 46"
proof -
  have "takeWhile (\<lambda>x. x \<noteq> 46) (rev (map ascii_lower s))
          = map ascii_lower (takeWhile (\<lambda>x. x \<noteq> 46) (rev s))"
    by (simp add: rev_map takeWhile_map comp_def ascii_lower_dot)
  then have "length (takeWhile (\<lambda>x. x \<noteq> 46) (rev (map ascii_lower s)))
          = length (takeWhile (\<lambda>x. x \<noteq> 46) (rev s))"
    by simp
  moreover have "(46 \<in> set (map ascii_lower s)) = (46 \<in> set s)"
    by (rule dot_in_lowered)
  ultimately show ?thesis
    unfolding lastIndexOf_def by (simp del: set_map)
qed

lemma substring_drop:
  "substring l i = ext \<Longrightarrow> \<exists>stem. l = stem @ ext"
  unfolding substring_def by (metis append_take_drop_id)

lemma substring_of_extension:
  assumes "l = stem @ 46 # rest" and "46 \<notin> set rest"
  shows "substring l (lastIndexOf l 46) = 46 # rest"
proof -
  have "takeWhile (\<lambda>x. x \<noteq> 46) (rev rest @ 46 # rev stem)
          = rev rest @ takeWhile (\<lambda>x. x \<noteq> 46) (46 # rev stem)"
    using assms(2) by (intro takeWhile_append2) auto
  then have tw: "takeWhile (\<lambda>x. x \<noteq> 46) (rev l) = rev rest"
    using assms(1) by simp
  have "lastIndexOf l 46 = int (length stem)"
    using assms(1) tw by (simp add: lastIndexOf_def)
  then show ?thesis using assms(1) by (simp add: substring_def)
qed

lemma isValidFileType_extension:
  assumes "isValidFileType unicodeLower f"
  shows "\<exists>stem. toLowerCase unicodeLower (file_name f) = stem @ utf16 ''.tsv''
              \<or> toLowerCase unicodeLower (file_name f) = stem @ utf16 ''.txt''"
proof -
  let ?l = "toLowerCase unicodeLower (file_name f)"
  let ?i = "lastIndexOf (file_name f) (of_char CHR ''.'')"
  from assms have "substring ?l ?i = utf16 ''.tsv'' \<or> substring ?l ?i = utf16 ''.txt''"
    by (simp add: isValidFileType_def Let_def)
  then show ?thesis
    using substring_drop[of ?l ?i] by blast
qed

lemma isValidFileType_ascii:
  assumes "is_ascii (file_name f)"
  shows "isValidFileType unicodeLower f
           = (\<exists>stem. map ascii_lower (file_name f) = stem @ utf16 ''.tsv''
                    \<or> map ascii_lower (file_name f) = stem @ utf16 ''.txt'')"
proof -
  let ?l = "map ascii_lower (file_name f)"
  have v: "isValidFileType unicodeLower f
             = (substring ?l (lastIndexOf ?l 46) = utf16 ''.tsv''
                \<or> substring ?l (lastIndexOf ?l 46) = utf16 ''.txt'')"
    using assms
    by (simp add: isValidFileType_def toLowerCase_def Let_def lastIndexOf_lowered
          utf16_extensions(3))
  show ?thesis
  proof
    assume "isValidFileType unicodeLower f"
    with v show "\<exists>stem. ?l = stem @ utf16 ''.tsv'' \<or> ?l = stem @ utf16 ''.txt''"
      using substring_drop[of ?l "lastIndexOf ?l 46"] by blast
  next
    assume "\<exists>stem. ?l = stem @ utf16 ''.tsv'' \<or> ?l = stem @ utf16 ''.txt''"
    then obtain stem where "?l = stem @ utf16 ''.tsv'' \<or> ?l = stem @ utf16 ''.txt''" by blast
    then have "substring ?l (lastIndexOf ?l 46) = utf16 ''.tsv''
                \<or> substring ?l (lastIndexOf ?l 46) = utf16 ''.txt''"
      using substring_of_extension[of ?l stem "[116, 115, 118]"]
            substring_of_extension[of ?l stem "[116, 120, 116]"]
      by (auto simp add: utf16_extensions)
    with v show "isValidFileType unicodeLower f" by simp
  qed
qed

text \<open>
  A name that is not ASCII: the capital I with a dot above, U+0130, followed by .tsv. Its
  lower-cased form has one code unit more, the index of the dot is taken in the name as
  given, and the type check fails although the lower-cased name ends in .tsv.
\<close>

lemma dotted_capital_I_rejected:
  assumes "unicodeLower [304, 46, 116, 115, 118] = [105, 775, 46, 116, 115, 118]"
  shows "\<not> isValidFileType unicodeLower \<lparr>file_name = [304, 46, 116, 115, 118], file_size = 10\<rparr>"
  using assms
  by (simp add: isValidFileType_def toLowerCase_def is_ascii_def lastIndexOf_def substring_def
        utf16_extensions Let_def)

lemma uploadFileAsync_sends_post:
  "\<exists>ys. trace (uploadFileAsync ft (Some f) started srv w)
          = trace w @ Http (PostUploadAsync ft) # ys"
proof (cases started)
  case (Inl e)
  then show ?thesis by (simp add: uploadFileAsync_cases world_ops_trace)
next
  case (Inr t)
  from upload_trace_extends[of "task_id t" srv ft 0 "http_send (PostUploadAsync ft) w"]
  obtain ys where
    "trace (pollUploadTaskStatus (task_id t) srv ft 0 (http_send (PostUploadAsync ft) w))
       = trace w @ Http (PostUploadAsync ft) # ys"
    by (auto simp add: world_ops_trace)
  then show ?thesis using Inr by (simp add: uploadFileAsync_cases world_ops_trace)
qed

lemma fetchDataStatus_extends:
  "snd (snd (fetchDataStatus resp now (c, subject, tr))) = tr @ [Http GetFileStatus]"
  by (simp add: fetchDataStatus_def Let_def split: prod.split sum.split)

lemma uploadNext_extends:
  "\<exists>zs. snd (snd (uploadNext toString statusResp now ft result (c, subject, tr))) = tr @ zs"
  by (simp add: uploadNext_def Let_def fetchDataStatus_extends split: option.split)

lemma uploadError_extends:
  "snd (snd (uploadError ft error (c, subject, tr))) = tr"
  by (simp add: uploadError_def split: option.split)

lemma callback_extends:
  "\<exists>zs. snd (snd (callback (uploadNext toString statusResp now ft) (uploadError ft) a
                     (happens a (c, subject, tr)))) = tr @ a # zs"
proof (cases a)
  case (Deliver n)
  show ?thesis
  proof (cases n)
    case (OnNext result)
    from uploadNext_extends[of toString statusResp now ft result c subject "tr @ [a]"]
    show ?thesis using Deliver OnNext by (simp add: happens_def)
  next
    case (OnError error)
    then show ?thesis using Deliver by (simp add: happens_def uploadError_extends)
  next
    case OnComplete
    then show ?thesis using Deliver by (simp add: happens_def)
  qed
qed (simp_all add: happens_def)

lemma callbacks_extend:
  "\<exists>zs. snd (snd (foldl (\<lambda>s a. callback (uploadNext toString statusResp now ft)
                                  (uploadError ft) a (happens a s)) s as))
          = snd (snd s) @ zs"
proof (induction as arbitrary: s)
  case Nil
  then show ?case by simp
next
  case (Cons a as)
  obtain c subject tr where s: "s = (c, subject, tr)" by (cases s) auto
  let ?s1 = "callback (uploadNext toString statusResp now ft) (uploadError ft) a (happens a s)"
  from callback_extends[of toString statusResp now ft a c subject tr]
  obtain zs where 1: "snd (snd ?s1) = tr @ a # zs" using s by auto
  from Cons.IH[of ?s1] obtain zs' where
    "snd (snd (foldl (\<lambda>s a. callback (uploadNext toString statusResp now ft)
                               (uploadError ft) a (happens a s)) ?s1 as))
       = snd (snd ?s1) @ zs'" by blast
  with 1 s show ?case by simp
qed

lemma subscribe_first:
  assumes "trace run = a # ys"
  shows "\<exists>zs. snd (snd (subscribe (uploadNext toString statusResp now ft) (uploadError ft) run
                          (c, subject, tr))) = tr @ a # zs"
proof -
  let ?s1 = "callback (uploadNext toString statusResp now ft) (uploadError ft) a
               (happens a (c, subject, tr))"
  from callback_extends[of toString statusResp now ft a c subject tr]
  obtain zs where 1: "snd (snd ?s1) = tr @ a # zs" by blast
  from callbacks_extend[of toString statusResp now ft ?s1 ys] obtain zs' where
    "snd (snd (foldl (\<lambda>s a. callback (uploadNext toString statusResp now ft)
                               (uploadError ft) a (happens a s)) ?s1 ys))
       = snd (snd ?s1) @ zs'" by blast
  with 1 assms show ?thesis by (simp add: subscribe_def)
qed

lemma uploadFile_accepted:
  assumes "selectedFile c = Some f" "selectedFileType c \<noteq> []"
    "isValidFileType unicodeLower f" "isValidFileSize f 50"
  shows "\<exists>zs. snd (snd (uploadFile unicodeLower toString started srv statusResp now
                          (c, subject, tr)))
              = tr @ Http (PostUploadAsync (selectedFileType c)) # zs"
proof -
  from uploadFileAsync_sends_post[of "selectedFileType c" f started srv subscribed]
  obtain ys where
    "trace (uploadFileAsync (selectedFileType c) (Some f) started srv subscribed)
       = Http (PostUploadAsync (selectedFileType c)) # ys"
    by (auto simp add: subscribed_def)
  from subscribe_first[OF this, of toString statusResp now "selectedFileType c"
      "closeUploadModal c" subject tr]
  show ?thesis using assms by (simp add: uploadFile_def Let_def)
qed

lemma sample_upload_run:
  "trace (uploadFileAsync ''styles'' (Some (sample_file ''data.tsv'' 10))
            (Inr (sample_task ''PENDING'' None)) three_running_then_completed subscribed)
     = [Http (PostUploadAsync ''styles''),
        Http (GetTask 7), Deliver (OnNext (upload_progress (sample_task ''RUNNING'' (Some 25)))),
        SetTimeout 2000,
        Http (GetTask 7), Deliver (OnNext (upload_progress (sample_task ''RUNNING'' (Some 25)))),
        SetTimeout 2000,
        Http (GetTask 7), Deliver (OnNext (upload_progress (sample_task ''RUNNING'' (Some 25)))),
        SetTimeout 2000,
        Http (GetTask 7),
        Deliver (OnNext \<lparr>progress = 100, ev_task = Some (sample_task ''COMPLETED'' (Some 100)),
                         completed = Some True, ev_blob = None, filename = None\<rparr>),
        Deliver OnComplete]"
proof -
  have o: "\<not> closed (http_send (PostUploadAsync ''styles'') subscribed)"
    by (simp add: world_ops_closed sample_facts)
  have "uploadFileAsync ''styles'' (Some (sample_file ''data.tsv'' 10))
            (Inr (sample_task ''PENDING'' None)) three_running_then_completed subscribed
          = pollUploadTaskStatus 7 three_running_then_completed ''styles'' 0
              (http_send (PostUploadAsync ''styles'') subscribed)"
    by (simp add: uploadFileAsync_cases sample_task_def)
  also note upload_three_running_then_completed[where srv=three_running_then_completed
      and tid=7 and ft="''styles''" and w="http_send (PostUploadAsync ''styles'') subscribed",
      OF sample_facts(1-4) sample_facts(5) sample_facts(5) sample_facts(5) sample_facts(5) o]
  finally show ?thesis by (simp add: world_ops_trace sample_facts)
qed

lemma sample_upload_page:
  "snd (snd (uploadFile keep_units whole_number (Inr (sample_task ''PENDING'' None))
               three_running_then_completed (Inr all_loaded) 1000
               (component_with (Some (sample_file ''data.tsv'' 10)), fallbackStatus, [])))
     = [Http (PostUploadAsync ''styles''),
        Http (GetTask 7), Deliver (OnNext (upload_progress (sample_task ''RUNNING'' (Some 25)))),
        SetTimeout 2000,
        Http (GetTask 7), Deliver (OnNext (upload_progress (sample_task ''RUNNING'' (Some 25)))),
        SetTimeout 2000,
        Http (GetTask 7), Deliver (OnNext (upload_progress (sample_task ''RUNNING'' (Some 25)))),
        SetTimeout 2000,
        Http (GetTask 7),
        Deliver (OnNext \<lparr>progress = 100, ev_task = Some (sample_task ''COMPLETED'' (Some 100)),
                         completed = Some True, ev_blob = None, filename = None\<rparr>),
        Http GetFileStatus,
        Deliver OnComplete]"
proof -
  have v: "isValidFileType keep_units (sample_file ''data.tsv'' 10)"
    "isValidFileSize (sample_file ''data.tsv'' 10) 50"
    by (simp_all add: sample_file_def isValidFileType_def toLowerCase_def is_ascii_def
          ascii_lower_def lastIndexOf_def substring_def utf16_def isValidFileSize_def Let_def)
  have "uploadFile keep_units whole_number (Inr (sample_task ''PENDING'' None))
               three_running_then_completed (Inr all_loaded) 1000
               (component_with (Some (sample_file ''data.tsv'' 10)), fallbackStatus, [])
        = foldl (\<lambda>s a. callback (uploadNext whole_number (Inr all_loaded) 1000 ''styles'')
                           (uploadError ''styles'') a (happens a s))
            (closeUploadModal (component_with (Some (sample_file ''data.tsv'' 10))),
             fallbackStatus, [])
            [Http (PostUploadAsync ''styles''),
             Http (GetTask 7),
             Deliver (OnNext (upload_progress (sample_task ''RUNNING'' (Some 25)))),
             SetTimeout 2000,
             Http (GetTask 7),
             Deliver (OnNext (upload_progress (sample_task ''RUNNING'' (Some 25)))),
             SetTimeout 2000,
             Http (GetTask 7),
             Deliver (OnNext (upload_progress (sample_task ''RUNNING'' (Some 25)))),
             SetTimeout 2000,
             Http (GetTask 7),
             Deliver (OnNext \<lparr>progress = 100,
                              ev_task = Some (sample_task ''COMPLETED'' (Some 100)),
                              completed = Some True, ev_blob = None, filename = None\<rparr>),
             Deliver OnComplete]"
    by (simp add: uploadFile_def v Let_def component_with_def subscribe_def sample_upload_run)
  then show ?thesis
    by (simp add: component_with_def happens_def closeUploadModal_def uploadNext_def Let_def
        initialUploadFiles_def newUploadFile_def upload_progress_def truthy_def
        fetchDataStatus_def getUploadStatus_def)
qed

text \<open>
  C5. Without a file nothing is sent: \<open>startUploadTask\<close> fails with ``No file provided for
  upload'' and leaves the world as it is, the upload sequence only delivers that error,
  and \<open>uploadFile\<close> of the component returns at once. With a file selected, \<open>uploadFile\<close>
  changes nothing and sends nothing when the lower-cased name does not end in .tsv or
  .txt, or when the size exceeds 50 MiB: a name that passes the type check ends, lower-cased,
  in .tsv or .txt, and for an ASCII name the type check is exactly that test; the size
  check compares the size with the ceiling in MiB. When both checks pass and a file type
  is selected, the first thing to happen is the POST. A file data.csv fails the type
  check, a file of 51 MiB fails the size check at the ceiling 50, a file data.tsv of 10
  MiB passes both. All of this holds whatever the runtime's lower-casing does to names
  that are not ASCII.
\<close>

theorem upload_validation:
  "startUploadTask ft None started w = (w, Inl (Error ''No file provided for upload'' None))
   \<and> uploadFileAsync ft None started srv w
       = observer_error (Error ''No file provided for upload'' None) w
   \<and> (selectedFile c = None \<longrightarrow>
        uploadFile unicodeLower toString started srv statusResp now (c, subject, tr)
          = (c, subject, tr))
   \<and> (selectedFile c = Some f
        \<and> ((\<forall>stem. toLowerCase unicodeLower (file_name f) \<noteq> stem @ utf16 ''.tsv''
                  \<and> toLowerCase unicodeLower (file_name f) \<noteq> stem @ utf16 ''.txt'')
           \<or> file_size f > 50 * 1024 * 1024) \<longrightarrow>
        uploadFile unicodeLower toString started srv statusResp now (c, subject, tr)
          = (c, subject, tr))
   \<and> (selectedFile c = Some f \<and> selectedFileType c \<noteq> [] \<and> isValidFileType unicodeLower f
        \<and> isValidFileSize f 50 \<longrightarrow>
        (\<exists>zs. snd (snd (uploadFile unicodeLower toString started srv statusResp now
                          (c, subject, tr)))
                = tr @ Http (PostUploadAsync (selectedFileType c)) # zs))
   \<and> (isValidFileType unicodeLower f \<longrightarrow>
        (\<exists>stem. toLowerCase unicodeLower (file_name f) = stem @ utf16 ''.tsv''
               \<or> toLowerCase unicodeLower (file_name f) = stem @ utf16 ''.txt''))
   \<and> (is_ascii (file_name f) \<longrightarrow>
        isValidFileType unicodeLower f
          = (\<exists>stem. map ascii_lower (file_name f) = stem @ utf16 ''.tsv''
                   \<or> map ascii_lower (file_name f) = stem @ utf16 ''.txt''))
   \<and> isValidFileSize f mb = (file_size f \<le> mb * 1024 * 1024)
   \<and> \<not> isValidFileType unicodeLower (sample_file ''data.csv'' 10)
   \<and> \<not> isValidFileSize (sample_file ''data.tsv'' 51) 50
   \<and> isValidFileType unicodeLower (sample_file ''data.tsv'' 10)
   \<and> isValidFileSize (sample_file ''data.tsv'' 10) 50"
proof -
  have a: "startUploadTask ft None started w
             = (w, Inl (Error ''No file provided for upload'' None))"
    by (simp add: startUploadTask_def)
  have a': "uploadFileAsync ft None started srv w
       = observer_error (Error ''No file provided for upload'' None) w"
    by (simp add: uploadFileAsync_cases)
  have b: "selectedFile c = None \<longrightarrow>
        uploadFile unicodeLower toString started srv statusResp now (c, subject, tr)
          = (c, subject, tr)"
    by (simp add: uploadFile_def)
  have c: "selectedFile c = Some f
        \<and> ((\<forall>stem. toLowerCase unicodeLower (file_name f) \<noteq> stem @ utf16 ''.tsv''
                  \<and> toLowerCase unicodeLower (file_name f) \<noteq> stem @ utf16 ''.txt'')
           \<or> file_size f > 50 * 1024 * 1024) \<longrightarrow>
        uploadFile unicodeLower toString started srv statusResp now (c, subject, tr)
          = (c, subject, tr)"
    using isValidFileType_extension[of unicodeLower f]
    by (auto simp add: uploadFile_def isValidFileSize_def Let_def)
  have d: "selectedFile c = Some f \<and> selectedFileType c \<noteq> [] \<and> isValidFileType unicodeLower f
        \<and> isValidFileSize f 50 \<longrightarrow>
        (\<exists>zs. snd (snd (uploadFile unicodeLower toString started srv statusResp now
                          (c, subject, tr)))
                = tr @ Http (PostUploadAsync (selectedFileType c)) # zs)"
    using uploadFile_accepted[of c f unicodeLower toString started srv statusResp now subject tr]
    by blast
  have e: "isValidFileSize f mb = (file_size f \<le> mb * 1024 * 1024)"
    by (simp add: isValidFileSize_def Let_def)
  have g: "\<not> isValidFileType unicodeLower (sample_file ''data.csv'' 10)"
    "isValidFileType unicodeLower (sample_file ''data.tsv'' 10)"
    by (simp_all add: sample_file_def isValidFileType_def toLowerCase_def is_ascii_def
          ascii_lower_def lastIndexOf_def substring_def utf16_def)
  have h: "\<not> isValidFileSize (sample_file ''data.tsv'' 51) 50"
    "isValidFileSize (sample_file ''data.tsv'' 10) 50"
    by (simp_all add: sample_file_def isValidFileSize_def Let_def)
  from a a' b c d e g h isValidFileType_extension[of unicodeLower f]
    isValidFileType_ascii[of f unicodeLower]
  show ?thesis by blast
qed

theorem upload_validation_witness:
  "uploadFile keep_units whole_number (Inr (sample_task ''PENDING'' None))
      three_running_then_completed (Inr all_loaded) 1000
      (component_with None, fallbackStatus, [])
    = (component_with None, fallbackStatus, [])
   \<and> uploadFile keep_units whole_number (Inr (sample_task ''PENDING'' None))
        three_running_then_completed (Inr all_loaded) 1000
        (component_with (Some (sample_file ''data.csv'' 10)), fallbackStatus, [])
      = (component_with (Some (sample_file ''data.csv'' 10)), fallbackStatus, [])
   \<and> uploadFile keep_units whole_number (Inr (sample_task ''PENDING'' None))
        three_running_then_completed (Inr all_loaded) 1000
        (component_with (Some (sample_file ''data.tsv'' 51)), fallbackStatus, [])
      = (component_with (Some (sample_file ''data.tsv'' 51)), fallbackStatus, [])
   \<and> snd (snd (uploadFile keep_units whole_number (Inr (sample_task ''PENDING'' None))
                   three_running_then_completed (Inr all_loaded) 1000
                   (component_with (Some (sample_file ''data.tsv'' 10)), fallbackStatus, [])))
       = [Http (PostUploadAsync ''styles''),
          Http (GetTask 7),
          Deliver (OnNext (upload_progress (sample_task ''RUNNING'' (Some 25)))),
          SetTimeout 2000,
          Http (GetTask 7),
          Deliver (OnNext (upload_progress (sample_task ''RUNNING'' (Some 25)))),
          SetTimeout 2000,
          Http (GetTask 7),
          Deliver (OnNext (upload_progress (sample_task ''RUNNING'' (Some 25)))),
          SetTimeout 2000,
          Http (GetTask 7),
          Deliver (OnNext \<lparr>progress = 100,
                           ev_task = Some (sample_task ''COMPLETED'' (Some 100)),
                           completed = Some True, ev_blob = None, filename = None\<rparr>),
          Http GetFileStatus,
          Deliver OnComplete]
   \<and> isValidFileType keep_units (sample_file ''data.tsv'' 10)
   \<and> isValidFileSize (sample_file ''data.tsv'' 10) 50
   \<and> is_ascii (file_name (sample_file ''data.tsv'' 10))
   \<and> map ascii_lower (file_name (sample_file ''data.tsv'' 10)) = utf16 ''data'' @ utf16 ''.tsv''"
proof -
  let ?up = "\<lambda>f. uploadFile keep_units whole_number (Inr (sample_task ''PENDING'' None))
                 three_running_then_completed (Inr all_loaded) 1000
                 (component_with f, fallbackStatus, [])"
  note t = upload_validation[where started="Inr (sample_task ''PENDING'' None)"
      and srv=three_running_then_completed and w=subscribed and ft="''styles''" and mb=50
      and unicodeLower=keep_units and toString=whole_number and statusResp="Inr all_loaded"
      and now=1000 and subject=fallbackStatus and tr="[]"]
  have s: "selectedFile (component_with x) = x" "selectedFileType (component_with x) = ''styles''"
    for x by (simp_all add: component_with_def)
  have csv: "\<forall>stem. toLowerCase keep_units (file_name (sample_file ''data.csv'' 10))
                       \<noteq> stem @ utf16 ''.tsv''
                  \<and> toLowerCase keep_units (file_name (sample_file ''data.csv'' 10))
                       \<noteq> stem @ utf16 ''.txt''"
  proof -
    have asc: "is_ascii (file_name (sample_file ''data.csv'' 10))"
      by (simp add: sample_file_def is_ascii_def utf16_def)
    then have la: "toLowerCase keep_units (file_name (sample_file ''data.csv'' 10))
                     = map ascii_lower (file_name (sample_file ''data.csv'' 10))"
      by (simp add: toLowerCase_def)
    have "\<not> (\<exists>stem. map ascii_lower (file_name (sample_file ''data.csv'' 10))
                       = stem @ utf16 ''.tsv''
                   \<or> map ascii_lower (file_name (sample_file ''data.csv'' 10))
                       = stem @ utf16 ''.txt'')"
      using t[where f="sample_file ''data.csv'' 10" and c="component_with None"] asc by blast
    then show ?thesis unfolding la by blast
  qed
  have big: "file_size (sample_file ''data.tsv'' 51) > 50 * 1024 * 1024"
    by (simp add: sample_file_def)
  have 1: "?up None = (component_with None, fallbackStatus, [])"
    using t[where c="component_with None" and f="sample_file ''data.csv'' 10"]
      s[of None] by blast
  have 2: "?up (Some (sample_file ''data.csv'' 10))
             = (component_with (Some (sample_file ''data.csv'' 10)), fallbackStatus, [])"
    using t[where c="component_with (Some (sample_file ''data.csv'' 10))"
        and f="sample_file ''data.csv'' 10"] s[of "Some (sample_file ''data.csv'' 10)"] csv
    by blast
  have 3: "?up (Some (sample_file ''data.tsv'' 51))
             = (component_with (Some (sample_file ''data.tsv'' 51)), fallbackStatus, [])"
    using t[where c="component_with (Some (sample_file ''data.tsv'' 51))"
        and f="sample_file ''data.tsv'' 51"] s[of "Some (sample_file ''data.tsv'' 51)"] big
    by blast
  have 4: "\<exists>zs. snd (snd (?up (Some (sample_file ''data.tsv'' 10))))
             = [] @ Http (PostUploadAsync ''styles'') # zs"
    using t[where c="component_with (Some (sample_file ''data.tsv'' 10))"
        and f="sample_file ''data.tsv'' 10"] s[of "Some (sample_file ''data.tsv'' 10)"]
    by auto
  have 5: "is_ascii (file_name (sample_file ''data.tsv'' 10))"
    "map ascii_lower (file_name (sample_file ''data.tsv'' 10)) = utf16 ''data'' @ utf16 ''.tsv''"
    by (simp_all add: sample_file_def is_ascii_def ascii_lower_def utf16_def)
  have 6: "isValidFileType keep_units (sample_file ''data.tsv'' 10)"
    "isValidFileSize (sample_file ''data.tsv'' 10) 50"
    using t[where c="component_with None" and f="sample_file ''data.csv'' 10"] by blast+
  from 1 2 3 4 5 6 sample_upload_page show ?thesis by simp
qed

section \<open>Errors of the service calls\<close>

lemma handleError_unavailable:
  "handleError unavailable
     = Error (''Error Code: 503'' @ [CHR 0x0A] @ ''Message: Service Unavailable'') None"
  by (simp add: handleError_def unavailable_def string_of_nat.simps Let_def)

lemma unavailable_body:
  "he_error unavailable = NoBody"
  by (simp add: unavailable_def)

text \<open>
  C4 (amended). On an error of the HTTP request: the read calls of the task, dashboard,
  algorithm and reports services return their static fallback (the empty list, the empty
  object, the zeroed statistics, the fallback dashboard data, the default parameters, an
  empty blob); \<open>downloadNoosResults\<close> has no handler and fails with the error; the
  status read of the upload service returns the fallback snapshot only when the error body
  is a non-empty string, and otherwise fails, as its task list and error report reads do,
  with the error built by \<open>handleError\<close>. The save, update and activate calls of the
  parameter service, the run calls of the dashboard service and the delete call of the
  reports service fail with the error they caught, untouched; the cancel and clear calls of
  the upload service fail with the error built by \<open>handleError\<close>; the update and create
  calls of the algorithm service return the submitted parameters, and its run calls and the
  cancel call of the task service return the empty object, instead of failing. An answer
  without error is passed on, as shown for one call of each kind.
\<close>

theorem service_error_handling:
  "TaskService_getTasks (Inl e) = Inr []
   \<and> TaskService_getTask (Inl e) = Inr EmptyObject
   \<and> TaskService_getTaskStats (Inl e)
       = Inr \<lparr>ts_total = 0, ts_running = 0, ts_completed = 0, ts_failed = 0, ts_cancelled = 0\<rparr>
   \<and> TaskService_getTasksByStatus (Inl e) = Inr []
   \<and> getDashboardMetrics (Inl e) = Inr getFallbackDashboardData
   \<and> getNoosDashboardData (Inl e)
       = Inr \<lparr>summary = Map.empty, totalResults = 0, lastRunDate = None, hasResults = False,
              percentages = Map.empty\<rparr>
   \<and> getLatestNoosResults (Inl e) = Inr []
   \<and> getNoosResultsSummary (Inl e) = Inr Map.empty
   \<and> DashboardService_getTaskStats (Inl e) = Inr EmptyObject
   \<and> getRecentTasks (Inl e) = Inr []
   \<and> DashboardService_getTask (Inl e) = Inr EmptyObject
   \<and> getSystemHealth (Inl e) = Inr []
   \<and> getNoosAnalytics (Inl e) = Inr []
   \<and> getParameterSets (Inl e) = Inr []
   \<and> getDefaultParameters now (Inl e) = Inr (getFallbackParameters now)
   \<and> getParameterSet now (Inl e) = Inr (getFallbackParameters now)
   \<and> getCurrentParameters now (Inl e) = Inr (getFallbackParameters now)
   \<and> getRecentParameterSets (Inl e) = Inr []
   \<and> AlgorithmService_getCurrentParameters yearAgo today (Inl e)
       = Inr (getDefaultParametersFallback yearAgo today)
   \<and> AlgorithmService_getDefaultParameters yearAgo today (Inl e)
       = Inr (getDefaultParametersFallback yearAgo today)
   \<and> getActiveParameterSets (Inl e) = Inr []
   \<and> AlgorithmService_getRecentParameterSets (Inl e) = Inr []
   \<and> getNoosAnalyticsReport (Inl e) = Inr []
   \<and> getSystemHealthReport (Inl e) = Inr []
   \<and> downloadNoosAnalyticsReport (Inl e) = Inr []
   \<and> downloadSystemHealthReport (Inl e) = Inr []
   \<and> downloadNoosRun (Inl e) = Inr []
   \<and> downloadNoosResults (Inl e) = Inl e
   \<and> getUploadStatus (Inl e) subject
       = (case he_error e of
            TextBody s \<Rightarrow> if s \<noteq> [] then (Inr fallbackStatus, fallbackStatus)
                          else (Inl (handleError e), subject)
          | _ \<Rightarrow> (Inl (handleError e), subject))
   \<and> getUploadStatus (Inr snapshot) subject = (Inr snapshot, snapshot)
   \<and> UploadService_getAllTasks (Inl e) = Inl (handleError e)
   \<and> UploadService_getErrorReport (Inl e) = Inl (handleError e)
   \<and> saveParameterSet (Inl e) = Inl e
   \<and> updateParameterSet (Inl e) = Inl e
   \<and> activateParameterSet (Inl e) = Inl e
   \<and> DashboardService_runNoosAlgorithm (Inl e) = Inl e
   \<and> runNoosAlgorithmSync (Inl e) = Inl e
   \<and> deleteNoosRun (Inl e) = Inl e
   \<and> UploadService_cancelTask (Inl e) = Inl (handleError e)
   \<and> UploadService_clearAllData (Inl e) = Inl (handleError e)
   \<and> updateCurrentParameters parameters (Inl e) = Inr parameters
   \<and> createParameterSet parameters (Inl e) = Inr parameters
   \<and> runNoosAlgorithmAsync (Inl e) = Inr EmptyObject
   \<and> AlgorithmService_runNoosAlgorithm (Inl e) = Inr EmptyObject
   \<and> TaskService_cancelTask (Inl e) = Inr EmptyObject
   \<and> TaskService_getTasks (Inr xs) = Inr xs
   \<and> getDashboardMetrics (Inr d) = Inr d
   \<and> getCurrentParameters now (Inr ps) = Inr ps
   \<and> saveParameterSet (Inr ps) = Inr ps
   \<and> updateCurrentParameters parameters (Inr ps') = Inr ps'
   \<and> TaskService_cancelTask (Inr r) = Inr (Object r)"
  by (simp add: catchError_def
        TaskService_getTasks_def TaskService_getTask_def TaskService_getTaskStats_def
        TaskService_getTasksByStatus_def getDashboardMetrics_def getNoosDashboardData_def
        getLatestNoosResults_def getNoosResultsSummary_def DashboardService_getTaskStats_def
        getRecentTasks_def DashboardService_getTask_def getSystemHealth_def getNoosAnalytics_def
        getParameterSets_def getDefaultParameters_def getParameterSet_def
        getCurrentParameters_def getRecentParameterSets_def
        AlgorithmService_getCurrentParameters_def AlgorithmService_getDefaultParameters_def
        getActiveParameterSets_def AlgorithmService_getRecentParameterSets_def
        getNoosAnalyticsReport_def getSystemHealthReport_def downloadNoosAnalyticsReport_def
        downloadSystemHealthReport_def downloadNoosRun_def downloadNoosResults_def
        getUploadStatus_def UploadService_getAllTasks_def UploadService_getErrorReport_def
        saveParameterSet_def updateParameterSet_def activateParameterSet_def
        DashboardService_runNoosAlgorithm_def runNoosAlgorithmSync_def deleteNoosRun_def
        UploadService_cancelTask_def UploadService_clearAllData_def
        updateCurrentParameters_def createParameterSet_def runNoosAlgorithmAsync_def
        AlgorithmService_runNoosAlgorithm_def TaskService_cancelTask_def)

theorem service_error_handling_witness:
  "getUploadStatus (Inl unavailable) Map.empty
     = (Inl (Error (''Error Code: 503'' @ [CHR 0x0A] @ ''Message: Service Unavailable'') None),
        Map.empty)
   \<and> getUploadStatus
        (Inl \<lparr>he_error = TextBody ''<html>Bad Gateway</html>'', he_status = 502,
              he_message = ''Bad Gateway''\<rparr>) Map.empty
     = (Inr fallbackStatus, fallbackStatus)
   \<and> getDashboardMetrics (Inl unavailable) = Inr getFallbackDashboardData
   \<and> getCurrentParameters ''2026-11-03T00:00:00.000Z'' (Inl unavailable)
       = Inr (getFallbackParameters ''2026-11-03T00:00:00.000Z'')
   \<and> downloadNoosResults (Inl unavailable) = Inl unavailable
   \<and> deleteNoosRun (Inl unavailable) = Inl unavailable
   \<and> updateCurrentParameters (getDefaultParametersFallback ''2025-11-03'' ''2026-11-03'')
        (Inl unavailable)
     = Inr (getDefaultParametersFallback ''2025-11-03'' ''2026-11-03'')"
  using service_error_handling[where e=unavailable and subject=Map.empty
      and parameters="getDefaultParametersFallback ''2025-11-03'' ''2026-11-03''"
      and now="''2026-11-03T00:00:00.000Z''"]
    service_error_handling[where e="\<lparr>he_error = TextBody ''<html>Bad Gateway</html>'',
      he_status = 502, he_message = ''Bad Gateway''\<rparr>" and subject=Map.empty]
  by (simp add: handleError_unavailable unavailable_body)

text \<open>
  C4 as stated fails in both directions. A mutation call that does not propagate: with the
  server answering 503, \<open>updateCurrentParameters\<close> returns the parameters it was given.
  A read call that does not fall back: with the same answer, which has no string body,
  \<open>getUploadStatus\<close> fails with an error.
\<close>

theorem error_handling_counterexample:
  "updateCurrentParameters (getDefaultParametersFallback ''2025-11-03'' ''2026-11-03'')
     (Inl unavailable)
     = Inr (getDefaultParametersFallback ''2025-11-03'' ''2026-11-03'')
   \<and> fst (getUploadStatus (Inl unavailable) Map.empty)
     = Inl (Error (''Error Code: 503'' @ [CHR 0x0A] @ ''Message: Service Unavailable'') None)"
  by (simp add: updateCurrentParameters_def catchError_def getUploadStatus_def
        handleError_unavailable unavailable_body)

end
